theory Spec2Isabelle
  imports Main "HOL-Library.Word"
begin

section \<open>The congress package: a client of the ProPublica Congress API\<close>

text \<open>
  The package (\<^verbatim>\<open>src/congress/client.go\<close>) has seven exported methods on
  \<^verbatim>\<open>Client\<close>. Six of them build one URL, send one GET request with the
  header \<^verbatim>\<open>X-API-Key\<close>, read the whole body, hand it to
  \<^verbatim>\<open>json.Unmarshal\<close> and pick the entities out of the decoded envelope.
  The seventh, \<^verbatim>\<open>GetMembersByState\<close>, calls one of the six twice.

  The Go standard library (\<^verbatim>\<open>net/http\<close>, \<^verbatim>\<open>io/ioutil\<close>,
  \<^verbatim>\<open>encoding/json\<close>) is the environment of the package. It is a parameter
  of the model, the record \<open>world\<close>: what \<^verbatim>\<open>http.NewRequest\<close> rejects,
  what the network answers to a request, and what \<^verbatim>\<open>json.Unmarshal\<close> makes
  of a body for each of the four envelope types. Everything the package itself does is
  written out below, function by function.
\<close>

subsection \<open>Entity records (the structs of the package)\<close>

text \<open>
  Go's \<^verbatim>\<open>string\<close> is \<open>string\<close>, \<^verbatim>\<open>bool\<close> is \<open>bool\<close>,
  \<^verbatim>\<open>int\<close> is \<open>int\<close> (every value of Go's machine \<^verbatim>\<open>int\<close> is one;
  the package does no arithmetic on them), and a \<^verbatim>\<open>float32\<close> is carried as
  its 32-bit pattern (the package never computes with one). A slice is a list; the
  \<^verbatim>\<open>nil\<close> slice and the empty slice are both \<open>[]\<close>. An embedded struct is a
  field that carries the name of its type, as in Go.
\<close>

type_synonym float32 = "32 word"

record TrackingIDs =
  Govtrack :: string
  CSPAN :: string
  Votesmart :: string
  ICPSR :: string
  CRP :: string
  Google :: string
  Website :: string
  RSS :: string

record Member =
  FirstName :: string
  MiddleName :: string
  LastName :: string
  Suffix :: string
  Twitter :: string
  Facebook :: string
  Youtube :: string
  URL :: string
  TrackingIDs :: TrackingIDs

record MemberSummary =
  Member :: Member
  ID :: string
  Birth :: string
  State :: string
  Title :: string
  ShortTitle :: string
  InOffice :: bool
  SenateClass :: string
  StateRank :: string
  Party :: string
  Leadership :: string
  Office :: string
  Phone :: string
  Fax :: string
  TrackingIDs :: TrackingIDs
  Contact :: string
  TotalVotes :: int
  MissedVotes :: int
  PresentVotes :: int
  NextElection :: string
  Seniority :: string
  MissedVotesPct :: float32
  VotesWithParty :: float32
  LIS :: string
  FEC :: string
  DWNominate :: float32
  IdealPoint :: string
  OCD :: string

record MemberCommittee =
  Name :: string
  Code :: string
  URL :: string
  Side :: string
  Title :: string
  PartyRank :: int
  BeginDate :: string
  EndDate :: string

record MemberRole =
  Congress :: string
  Chamber :: string
  Title :: string
  ShortTitle :: string
  State :: string
  Party :: string
  Leadership :: string
  FEC :: string
  Seniority :: string
  District :: string
  AtLarge :: bool
  OCD :: string
  StartDate :: string
  EndDate :: string
  Office :: string
  Phone :: string
  Fax :: string
  Contact :: string
  Sponsored :: int
  Cosponsored :: int
  MissedVotesPct :: float32
  VotesWithParty :: float32
  Committees :: "MemberCommittee list"

record MemberDetails =
  Member :: Member
  ID :: string
  Birth :: string
  Gender :: string
  Party :: string
  State :: string
  InOffice :: bool
  TimesTopics :: string
  TimesTag :: string
  MostRecentVote :: string
  Roles :: "MemberRole list"
  TrackingIDs :: TrackingIDs

record MemberSearch =
  Member :: Member
  ID :: string
  Name :: string
  Title :: string
  Gender :: string
  Party :: string
  TimesTopics :: string
  Seniority :: string
  NextElection :: string
  URL :: string

record MemberInTransition =
  ID :: string
  FirstName :: string
  MiddleName :: string
  LastName :: string
  Suffix :: string
  Party :: string
  Chamber :: string
  State :: string
  District :: string
  StartDate :: string
  URL :: string
  EndDate :: string
  Status :: string
  Note :: string

subsection \<open>Response envelopes\<close>

record getMembersResults =
  Congress :: string
  Chamber :: string
  ResultCount :: int
  Offset :: int
  Members :: "MemberSummary list"

record getMembersResponse =
  Status :: string
  Copyright :: string
  Results :: "getMembersResults list"

record getMemberResponse =
  Status :: string
  Copyright :: string
  Results :: "MemberDetails list"

record getMembersByStateResponse =
  Status :: string
  Copyright :: string
  Results :: "MemberSearch list"

record getMembersInTransitionResults =
  Members :: "MemberInTransition list"
  Congress :: string
  Chamber :: string

record getMembersInTransitionResponse =
  Status :: string
  Copyright :: string
  Results :: "getMembersInTransitionResults list"

subsection \<open>Zero values\<close>

text \<open>
  \<^verbatim>\<open>var unmarshaled T\<close> and a named result that is never assigned hold the zero
  value of their type: every string empty, every number 0, every bool false, every
  slice nil, and so on through embedded structs.
\<close>

definition zero_TrackingIDs :: TrackingIDs where
  "zero_TrackingIDs =
     \<lparr>Govtrack = '''', CSPAN = '''', Votesmart = '''', ICPSR = '''', CRP = '''',
      Google = '''', Website = '''', RSS = ''''\<rparr>"

definition zero_Member :: Member where
  "zero_Member =
     \<lparr>Member.FirstName = '''', Member.MiddleName = '''', Member.LastName = '''',
      Member.Suffix = '''', Twitter = '''', Facebook = '''', Youtube = '''',
      Member.URL = '''', Member.TrackingIDs = zero_TrackingIDs\<rparr>"

definition zero_MemberDetails :: MemberDetails where
  "zero_MemberDetails =
     \<lparr>MemberDetails.Member = zero_Member, MemberDetails.ID = '''',
      MemberDetails.Birth = '''', MemberDetails.Gender = '''', MemberDetails.Party = '''',
      MemberDetails.State = '''', MemberDetails.InOffice = False,
      MemberDetails.TimesTopics = '''', TimesTag = '''', MostRecentVote = '''',
      Roles = [], MemberDetails.TrackingIDs = zero_TrackingIDs\<rparr>"

definition zero_MemberSearch :: MemberSearch where
  "zero_MemberSearch =
     \<lparr>MemberSearch.Member = zero_Member, MemberSearch.ID = '''', MemberSearch.Name = '''',
      MemberSearch.Title = '''', MemberSearch.Gender = '''', MemberSearch.Party = '''',
      MemberSearch.TimesTopics = '''', MemberSearch.Seniority = '''',
      MemberSearch.NextElection = '''', MemberSearch.URL = ''''\<rparr>"

definition zero_MemberInTransition :: MemberInTransition where
  "zero_MemberInTransition =
     \<lparr>MemberInTransition.ID = '''', MemberInTransition.FirstName = '''',
      MemberInTransition.MiddleName = '''', MemberInTransition.LastName = '''',
      MemberInTransition.Suffix = '''', MemberInTransition.Party = '''',
      MemberInTransition.Chamber = '''', MemberInTransition.State = '''',
      MemberInTransition.District = '''', MemberInTransition.StartDate = '''',
      MemberInTransition.URL = '''', MemberInTransition.EndDate = '''',
      MemberInTransition.Status = '''', Note = ''''\<rparr>"

definition zero_MemberSummary :: MemberSummary where
  "zero_MemberSummary =
     \<lparr>MemberSummary.Member = zero_Member, MemberSummary.ID = '''',
      MemberSummary.Birth = '''', MemberSummary.State = '''', MemberSummary.Title = '''',
      MemberSummary.ShortTitle = '''', MemberSummary.InOffice = False, SenateClass = '''',
      StateRank = '''', MemberSummary.Party = '''', MemberSummary.Leadership = '''',
      MemberSummary.Office = '''', MemberSummary.Phone = '''', MemberSummary.Fax = '''',
      MemberSummary.TrackingIDs = zero_TrackingIDs, MemberSummary.Contact = '''',
      TotalVotes = 0, MissedVotes = 0, PresentVotes = 0,
      MemberSummary.NextElection = '''', MemberSummary.Seniority = '''',
      MemberSummary.MissedVotesPct = 0, MemberSummary.VotesWithParty = 0, LIS = '''',
      MemberSummary.FEC = '''', DWNominate = 0, IdealPoint = '''',
      MemberSummary.OCD = ''''\<rparr>"

definition zero_getMembersResults :: getMembersResults where
  "zero_getMembersResults =
     \<lparr>getMembersResults.Congress = '''', getMembersResults.Chamber = '''',
      ResultCount = 0, Offset = 0, getMembersResults.Members = []\<rparr>"

definition zero_getMembersInTransitionResults :: getMembersInTransitionResults where
  "zero_getMembersInTransitionResults =
     \<lparr>getMembersInTransitionResults.Members = [],
      getMembersInTransitionResults.Congress = '''',
      getMembersInTransitionResults.Chamber = ''''\<rparr>"

definition zero_getMembersResponse :: getMembersResponse where
  "zero_getMembersResponse =
     \<lparr>getMembersResponse.Status = '''', getMembersResponse.Copyright = '''',
      getMembersResponse.Results = []\<rparr>"

definition zero_getMemberResponse :: getMemberResponse where
  "zero_getMemberResponse =
     \<lparr>getMemberResponse.Status = '''', getMemberResponse.Copyright = '''',
      getMemberResponse.Results = []\<rparr>"

definition zero_getMembersByStateResponse :: getMembersByStateResponse where
  "zero_getMembersByStateResponse =
     \<lparr>getMembersByStateResponse.Status = '''', getMembersByStateResponse.Copyright = '''',
      getMembersByStateResponse.Results = []\<rparr>"

definition zero_getMembersInTransitionResponse :: getMembersInTransitionResponse where
  "zero_getMembersInTransitionResponse =
     \<lparr>getMembersInTransitionResponse.Status = '''',
      getMembersInTransitionResponse.Copyright = '''',
      getMembersInTransitionResponse.Results = []\<rparr>"

subsection \<open>The client, requests, responses and errors\<close>

record Client =
  Endpoint :: string
  Key :: string

text \<open>
  A request as \<^verbatim>\<open>http.NewRequest\<close> builds it: the method, the URL string it was
  given, and the header lines in the order \<^verbatim>\<open>Header.Add\<close> put them there,
  each under the name the package wrote (Go files it under the canonical spelling of that
  name; header names do not distinguish case).
\<close>

record Request =
  Method :: string
  URL :: string
  Header :: "(string \<times> string) list"

text \<open>
  A response body is a stream. What matters to \<^verbatim>\<open>ioutil.ReadAll\<close> is the
  bytes it yields and the error, if any, that ends the read.
\<close>

datatype ReadCloser = ReadCloser string "string option"

record Response =
  StatusCode :: int
  Body :: ReadCloser

text \<open>
  Go's \<^verbatim>\<open>error\<close> values, by the library call that produced them (the package
  creates none of its own and passes each on unchanged). The payload is the message.
\<close>

datatype error =
  NewRequestError string
  | DoError string
  | ReadAllError string
  | UnmarshalError string

text \<open>
  The two kinds of failure the specification speaks of: a transport error comes from
  building the request, from the network call or from reading the body; a decode error
  comes from \<^verbatim>\<open>json.Unmarshal\<close>.
\<close>

fun is_TransportError :: "error \<Rightarrow> bool" where
  "is_TransportError (NewRequestError _) = True"
| "is_TransportError (DoError _) = True"
| "is_TransportError (ReadAllError _) = True"
| "is_TransportError (UnmarshalError _) = False"

fun is_DecodeError :: "error \<Rightarrow> bool" where
  "is_DecodeError (UnmarshalError _) = True"
| "is_DecodeError _ = False"

subsection \<open>The environment\<close>

text \<open>
  \<open>NewRequest_rejects method url\<close> is the message of the error
  \<^verbatim>\<open>http.NewRequest\<close> returns for this method and URL, if it returns one.
  \<open>RoundTrip req\<close> is what the network does with a request: an error message or a
  response. \<open>Unmarshal_T body dst\<close> is \<^verbatim>\<open>json.Unmarshal(body, &dst)\<close> for a
  destination of type \<open>T\<close>: the error message, if any, and the destination as the call
  leaves it.
\<close>

record world =
  NewRequest_rejects :: "string \<Rightarrow> string \<Rightarrow> string option"
  RoundTrip :: "Request \<Rightarrow> string + Response"
  Unmarshal_getMembersResponse ::
    "string \<Rightarrow> getMembersResponse \<Rightarrow> string option \<times> getMembersResponse"
  Unmarshal_getMemberResponse ::
    "string \<Rightarrow> getMemberResponse \<Rightarrow> string option \<times> getMemberResponse"
  Unmarshal_getMembersByStateResponse ::
    "string \<Rightarrow> getMembersByStateResponse \<Rightarrow> string option \<times> getMembersByStateResponse"
  Unmarshal_getMembersInTransitionResponse ::
    "string \<Rightarrow> getMembersInTransitionResponse
       \<Rightarrow> string option \<times> getMembersInTransitionResponse"

text \<open>
  The effects of a call are kept in a log, threaded through every function: each request
  handed to the network and each body handed to the decoder, in order.
\<close>

datatype event = Sent Request | Decode string

type_synonym io = "event list"

subsection \<open>The library calls\<close>

definition http_NewRequest :: "world \<Rightarrow> string \<Rightarrow> string \<Rightarrow> error + Request" where
  "http_NewRequest w method url =
     (case NewRequest_rejects w method url of
        Some msg \<Rightarrow> Inl (NewRequestError msg)
      | None \<Rightarrow> Inr \<lparr>Method = method, Request.URL = url, Header = []\<rparr>)"

definition Header_Add :: "Request \<Rightarrow> string \<Rightarrow> string \<Rightarrow> Request" where
  "Header_Add req key val = req\<lparr>Header := Header req @ [(key, val)]\<rparr>"

definition client_Do :: "world \<Rightarrow> Request \<Rightarrow> io \<Rightarrow> (error + Response) \<times> io" where
  "client_Do w req s =
     (case RoundTrip w req of
        Inl msg \<Rightarrow> (Inl (DoError msg), s @ [Sent req])
      | Inr resp \<Rightarrow> (Inr resp, s @ [Sent req]))"

fun ioutil_ReadAll :: "ReadCloser \<Rightarrow> string \<times> error option" where
  "ioutil_ReadAll (ReadCloser bytes None) = (bytes, None)"
| "ioutil_ReadAll (ReadCloser bytes (Some msg)) = (bytes, Some (ReadAllError msg))"

definition json_Unmarshal ::
  "(string \<Rightarrow> 'a \<Rightarrow> string option \<times> 'a) \<Rightarrow> string \<Rightarrow> 'a \<Rightarrow> io \<Rightarrow> (error option \<times> 'a) \<times> io" where
  "json_Unmarshal dec body dst s =
     (case dec body dst of
        (None, dst') \<Rightarrow> ((None, dst'), s @ [Decode body])
      | (Some msg, dst') \<Rightarrow> ((Some (UnmarshalError msg), dst'), s @ [Decode body]))"

subsection \<open>Formatting\<close>

text \<open>
  \<^verbatim>\<open>fmt.Sprintf\<close> is used with the verbs \<^verbatim>\<open>%s\<close> (the string as it is)
  and \<^verbatim>\<open>%d\<close> (the integer in decimal, with a minus sign when negative); the
  format strings are written out as concatenations in the functions below.
\<close>

fun fmt_nat :: "nat \<Rightarrow> string" where
  "fmt_nat n =
     (if n < 10 then [''0123456789'' ! n]
      else fmt_nat (n div 10) @ [''0123456789'' ! (n mod 10)])"

declare fmt_nat.simps [simp del]

definition fmt_d :: "int \<Rightarrow> string" where
  "fmt_d i = (if i < 0 then CHR ''-'' # fmt_nat (nat (- i)) else fmt_nat (nat i))"

subsection \<open>The seven operations\<close>

text \<open>
  Each function returns the pair of its two named results, \<open>(members, err)\<close>, and the
  log. A named result holds its zero value until it is assigned, and a bare
  \<^verbatim>\<open>return\<close> returns whatever the named results hold at that point. Every
  \<^verbatim>\<open>x, err := f()\<close> in the function bodies assigns the named result
  \<^verbatim>\<open>err\<close> (it is declared in the same block), so \<open>err\<close> is always the error of
  the last call made.
\<close>

text \<open>\<^verbatim>\<open>GetMembers\<close>: format \<^verbatim>\<open>"%s/%d/%s/members.json"\<close>.\<close>

definition GetMembers ::
  "world \<Rightarrow> Client \<Rightarrow> int \<Rightarrow> string \<Rightarrow> io \<Rightarrow> (MemberSummary list \<times> error option) \<times> io" where
  "GetMembers w c congress chamber s =
     (case http_NewRequest w ''GET''
             (Endpoint c @ ''/'' @ fmt_d congress @ ''/'' @ chamber @ ''/members.json'') of
        Inl err \<Rightarrow> (([], Some err), s)
      | Inr req0 \<Rightarrow>
          (let req = Header_Add req0 ''X-API-Key'' (Key c) in
           case client_Do w req s of
             (Inl err, s1) \<Rightarrow> (([], Some err), s1)
           | (Inr resp, s1) \<Rightarrow>
               (case ioutil_ReadAll (Body resp) of
                  (body, Some err) \<Rightarrow> (([], Some err), s1)
                | (body, None) \<Rightarrow>
                    (case json_Unmarshal (Unmarshal_getMembersResponse w) body
                            zero_getMembersResponse s1 of
                       ((Some err, unmarshaled), s2) \<Rightarrow> (([], Some err), s2)
                     | ((None, unmarshaled), s2) \<Rightarrow>
                         ((if length (getMembersResponse.Results unmarshaled) > 0
                           then getMembersResults.Members
                                  (getMembersResponse.Results unmarshaled ! 0)
                           else [], None), s2)))))"

text \<open>
  \<^verbatim>\<open>GetMember\<close>: format \<^verbatim>\<open>"%s/members/%s.json"\<close>. The parameter
  \<^verbatim>\<open>id\<close> is called \<open>ident\<close> here (\<open>id\<close> is the identity function of HOL), and
  the named result \<^verbatim>\<open>member\<close> starts as the zero \<^verbatim>\<open>MemberDetails\<close>.
\<close>

definition GetMember ::
  "world \<Rightarrow> Client \<Rightarrow> string \<Rightarrow> io \<Rightarrow> (MemberDetails \<times> error option) \<times> io" where
  "GetMember w c ident s =
     (case http_NewRequest w ''GET'' (Endpoint c @ ''/members/'' @ ident @ ''.json'') of
        Inl err \<Rightarrow> ((zero_MemberDetails, Some err), s)
      | Inr req0 \<Rightarrow>
          (let req = Header_Add req0 ''X-API-Key'' (Key c) in
           case client_Do w req s of
             (Inl err, s1) \<Rightarrow> ((zero_MemberDetails, Some err), s1)
           | (Inr resp, s1) \<Rightarrow>
               (case ioutil_ReadAll (Body resp) of
                  (body, Some err) \<Rightarrow> ((zero_MemberDetails, Some err), s1)
                | (body, None) \<Rightarrow>
                    (case json_Unmarshal (Unmarshal_getMemberResponse w) body
                            zero_getMemberResponse s1 of
                       ((Some err, unmarshaled), s2) \<Rightarrow> ((zero_MemberDetails, Some err), s2)
                     | ((None, unmarshaled), s2) \<Rightarrow>
                         ((if length (getMemberResponse.Results unmarshaled) > 0
                           then getMemberResponse.Results unmarshaled ! 0
                           else zero_MemberDetails, None), s2)))))"

text \<open>\<^verbatim>\<open>GetChamberMembersByState\<close>: format
  \<^verbatim>\<open>"%s/members/%s/%s/current.json"\<close> with the chamber before the state.\<close>

definition GetChamberMembersByState ::
  "world \<Rightarrow> Client \<Rightarrow> string \<Rightarrow> string \<Rightarrow> io \<Rightarrow> (MemberSearch list \<times> error option) \<times> io" where
  "GetChamberMembersByState w c state chamber s =
     (case http_NewRequest w ''GET''
             (Endpoint c @ ''/members/'' @ chamber @ ''/'' @ state @ ''/current.json'') of
        Inl err \<Rightarrow> (([], Some err), s)
      | Inr req0 \<Rightarrow>
          (let req = Header_Add req0 ''X-API-Key'' (Key c) in
           case client_Do w req s of
             (Inl err, s1) \<Rightarrow> (([], Some err), s1)
           | (Inr resp, s1) \<Rightarrow>
               (case ioutil_ReadAll (Body resp) of
                  (body, Some err) \<Rightarrow> (([], Some err), s1)
                | (body, None) \<Rightarrow>
                    (case json_Unmarshal (Unmarshal_getMembersByStateResponse w) body
                            zero_getMembersByStateResponse s1 of
                       ((Some err, unmarshaled), s2) \<Rightarrow> (([], Some err), s2)
                     | ((None, unmarshaled), s2) \<Rightarrow>
                         ((getMembersByStateResponse.Results unmarshaled, None), s2)))))"

text \<open>
  \<^verbatim>\<open>GetMembersByState\<close>: the house call assigns both named results; the senate
  call assigns \<^verbatim>\<open>senate\<close> and the named result \<^verbatim>\<open>err\<close>. The bare
  \<^verbatim>\<open>return\<close> after a failed senate call therefore returns \<open>members\<close> as the
  house call left it.
\<close>

definition GetMembersByState ::
  "world \<Rightarrow> Client \<Rightarrow> string \<Rightarrow> io \<Rightarrow> (MemberSearch list \<times> error option) \<times> io" where
  "GetMembersByState w c state s =
     (case GetChamberMembersByState w c state ''house'' s of
        ((members, Some err), s1) \<Rightarrow> ((members, Some err), s1)
      | ((members, None), s1) \<Rightarrow>
          (case GetChamberMembersByState w c state ''senate'' s1 of
             ((senate, Some err), s2) \<Rightarrow> ((members, Some err), s2)
           | ((senate, None), s2) \<Rightarrow> ((members @ senate, None), s2)))"

text \<open>\<^verbatim>\<open>GetChamberMembersByDistrict\<close>: format
  \<^verbatim>\<open>"%s/members/%s/%s/%d/current.json"\<close>.\<close>

definition GetChamberMembersByDistrict ::
  "world \<Rightarrow> Client \<Rightarrow> string \<Rightarrow> int \<Rightarrow> string \<Rightarrow> io
     \<Rightarrow> (MemberSearch list \<times> error option) \<times> io" where
  "GetChamberMembersByDistrict w c state district chamber s =
     (case http_NewRequest w ''GET''
             (Endpoint c @ ''/members/'' @ chamber @ ''/'' @ state @ ''/'' @ fmt_d district
                @ ''/current.json'') of
        Inl err \<Rightarrow> (([], Some err), s)
      | Inr req0 \<Rightarrow>
          (let req = Header_Add req0 ''X-API-Key'' (Key c) in
           case client_Do w req s of
             (Inl err, s1) \<Rightarrow> (([], Some err), s1)
           | (Inr resp, s1) \<Rightarrow>
               (case ioutil_ReadAll (Body resp) of
                  (body, Some err) \<Rightarrow> (([], Some err), s1)
                | (body, None) \<Rightarrow>
                    (case json_Unmarshal (Unmarshal_getMembersByStateResponse w) body
                            zero_getMembersByStateResponse s1 of
                       ((Some err, unmarshaled), s2) \<Rightarrow> (([], Some err), s2)
                     | ((None, unmarshaled), s2) \<Rightarrow>
                         ((getMembersByStateResponse.Results unmarshaled, None), s2)))))"

text \<open>\<^verbatim>\<open>GetNewMembers\<close>: format \<^verbatim>\<open>"%s/members/new.json"\<close>.\<close>

definition GetNewMembers ::
  "world \<Rightarrow> Client \<Rightarrow> io \<Rightarrow> (MemberInTransition list \<times> error option) \<times> io" where
  "GetNewMembers w c s =
     (case http_NewRequest w ''GET'' (Endpoint c @ ''/members/new.json'') of
        Inl err \<Rightarrow> (([], Some err), s)
      | Inr req0 \<Rightarrow>
          (let req = Header_Add req0 ''X-API-Key'' (Key c) in
           case client_Do w req s of
             (Inl err, s1) \<Rightarrow> (([], Some err), s1)
           | (Inr resp, s1) \<Rightarrow>
               (case ioutil_ReadAll (Body resp) of
                  (body, Some err) \<Rightarrow> (([], Some err), s1)
                | (body, None) \<Rightarrow>
                    (case json_Unmarshal (Unmarshal_getMembersInTransitionResponse w) body
                            zero_getMembersInTransitionResponse s1 of
                       ((Some err, unmarshaled), s2) \<Rightarrow> (([], Some err), s2)
                     | ((None, unmarshaled), s2) \<Rightarrow>
                         ((if length (getMembersInTransitionResponse.Results unmarshaled) > 0
                           then getMembersInTransitionResults.Members
                                  (getMembersInTransitionResponse.Results unmarshaled ! 0)
                           else [], None), s2)))))"

text \<open>
  \<^verbatim>\<open>GetDepartingMembers\<close>: format \<^verbatim>\<open>"%s/%d/%s/members/leaving.json"\<close>.
  After decoding, two guarded statements: the first takes the members of
  \<^verbatim>\<open>Results[0]\<close>, the second appends those of \<^verbatim>\<open>Results[1]\<close>.
\<close>

definition GetDepartingMembers ::
  "world \<Rightarrow> Client \<Rightarrow> int \<Rightarrow> string \<Rightarrow> io
     \<Rightarrow> (MemberInTransition list \<times> error option) \<times> io" where
  "GetDepartingMembers w c congress chamber s =
     (case http_NewRequest w ''GET''
             (Endpoint c @ ''/'' @ fmt_d congress @ ''/'' @ chamber
                @ ''/members/leaving.json'') of
        Inl err \<Rightarrow> (([], Some err), s)
      | Inr req0 \<Rightarrow>
          (let req = Header_Add req0 ''X-API-Key'' (Key c) in
           case client_Do w req s of
             (Inl err, s1) \<Rightarrow> (([], Some err), s1)
           | (Inr resp, s1) \<Rightarrow>
               (case ioutil_ReadAll (Body resp) of
                  (body, Some err) \<Rightarrow> (([], Some err), s1)
                | (body, None) \<Rightarrow>
                    (case json_Unmarshal (Unmarshal_getMembersInTransitionResponse w) body
                            zero_getMembersInTransitionResponse s1 of
                       ((Some err, unmarshaled), s2) \<Rightarrow> (([], Some err), s2)
                     | ((None, unmarshaled), s2) \<Rightarrow>
                         (let results = getMembersInTransitionResponse.Results unmarshaled;
                              members0 =
                                (if length results > 0
                                 then getMembersInTransitionResults.Members (results ! 0)
                                 else []);
                              members1 =
                                (if length results > 1
                                 then members0
                                        @ getMembersInTransitionResults.Members (results ! 1)
                                 else members0)
                          in ((members1, None), s2))))))"

subsection \<open>Notions used to state the properties\<close>

text \<open>
  The endpoint templates of the upstream API, rendered with the caller's parameters:
  \<^verbatim>\<open>{congress}\<close> and \<^verbatim>\<open>{district}\<close> in decimal, every other parameter as
  the string it is.
\<close>

definition path_members :: "int \<Rightarrow> string \<Rightarrow> string" where
  "path_members congress chamber = ''/'' @ fmt_d congress @ ''/'' @ chamber @ ''/members.json''"

definition path_member :: "string \<Rightarrow> string" where
  "path_member ident = ''/members/'' @ ident @ ''.json''"

definition path_current_state :: "string \<Rightarrow> string \<Rightarrow> string" where
  "path_current_state chamber state = ''/members/'' @ chamber @ ''/'' @ state @ ''/current.json''"

definition path_current_district :: "string \<Rightarrow> string \<Rightarrow> int \<Rightarrow> string" where
  "path_current_district chamber state district =
     ''/members/'' @ chamber @ ''/'' @ state @ ''/'' @ fmt_d district @ ''/current.json''"

definition path_new :: string where
  "path_new = ''/members/new.json''"

definition path_leaving :: "int \<Rightarrow> string \<Rightarrow> string" where
  "path_leaving congress chamber =
     ''/'' @ fmt_d congress @ ''/'' @ chamber @ ''/members/leaving.json''"

text \<open>The authenticated GET request for a URL.\<close>

definition api_request :: "Client \<Rightarrow> string \<Rightarrow> Request" where
  "api_request c url =
     \<lparr>Method = ''GET'', Request.URL = url, Header = [(''X-API-Key'', Key c)]\<rparr>"

text \<open>
  \<open>receives_body w c url body\<close>: in world \<open>w\<close> the URL is accepted, the network answers
  the client's request for it with a response, and the whole body of that response reads
  as \<open>body\<close>.
\<close>

definition receives_body :: "world \<Rightarrow> Client \<Rightarrow> string \<Rightarrow> string \<Rightarrow> bool" where
  "receives_body w c url body =
     (NewRequest_rejects w ''GET'' url = None \<and>
      (case RoundTrip w (api_request c url) of
         Inl msg \<Rightarrow> False
       | Inr resp \<Rightarrow> ioutil_ReadAll (Body resp) = (body, None)))"

text \<open>
  \<open>network_fails w c url msg\<close>: the URL is accepted and the network call for it fails
  with \<open>msg\<close>.
\<close>

definition network_fails :: "world \<Rightarrow> Client \<Rightarrow> string \<Rightarrow> string \<Rightarrow> bool" where
  "network_fails w c url msg =
     (NewRequest_rejects w ''GET'' url = None \<and> RoundTrip w (api_request c url) = Inl msg)"

text \<open>The requests and the decoded bodies of a log, in order.\<close>

fun requests :: "io \<Rightarrow> Request list" where
  "requests [] = []"
| "requests (Sent r # s) = r # requests s"
| "requests (Decode b # s) = requests s"

fun decoded :: "io \<Rightarrow> string list" where
  "decoded [] = []"
| "decoded (Sent r # s) = decoded s"
| "decoded (Decode b # s) = b # decoded s"

text \<open>The same world with the status code of every response overwritten.\<close>

definition erase_status :: "world \<Rightarrow> world" where
  "erase_status w =
     w\<lparr>RoundTrip :=
         (\<lambda>req. case RoundTrip w req of
                  Inl msg \<Rightarrow> Inl msg
                | Inr resp \<Rightarrow> Inr (resp\<lparr>StatusCode := 0\<rparr>))\<rparr>"

subsection \<open>A scripted server for concrete runs\<close>

text \<open>
  A world given by tables: the network answers the URLs of its script with the scripted
  status and body and refuses every other connection; each decoder knows the bodies of
  its table and rejects every other body; a URL with a space in it is rejected by
  \<^verbatim>\<open>http.NewRequest\<close>.
\<close>

definition scripted_network :: "(string \<times> int \<times> ReadCloser) list \<Rightarrow> Request \<Rightarrow> string + Response" where
  "scripted_network script req =
     (case map_of script (Request.URL req) of
        None \<Rightarrow> Inl ''connection refused''
      | Some (code, b) \<Rightarrow> Inr \<lparr>StatusCode = code, Body = b\<rparr>)"

definition scripted_decoder :: "(string \<times> 'a) list \<Rightarrow> string \<Rightarrow> 'a \<Rightarrow> string option \<times> 'a" where
  "scripted_decoder script body dst =
     (case map_of script body of
        None \<Rightarrow> (Some ''invalid character'', dst)
      | Some v \<Rightarrow> (None, v))"

definition test_client :: Client where
  "test_client = \<lparr>Endpoint = ''https://api.example/v1'', Key = ''KEYgoesHERE123''\<rparr>"

definition K000388 :: MemberSummary where
  "K000388 =
     zero_MemberSummary
       \<lparr>MemberSummary.Member := zero_Member\<lparr>Member.FirstName := ''Amy''\<rparr>,
        MemberSummary.ID := ''K000388''\<rparr>"

definition H1 :: MemberSearch where
  "H1 = zero_MemberSearch\<lparr>MemberSearch.ID := ''H1''\<rparr>"

definition S1 :: MemberSearch where
  "S1 = zero_MemberSearch\<lparr>MemberSearch.ID := ''S1''\<rparr>"

definition A1 :: MemberInTransition where
  "A1 = zero_MemberInTransition\<lparr>MemberInTransition.ID := ''A1''\<rparr>"

definition B2 :: MemberInTransition where
  "B2 = zero_MemberInTransition\<lparr>MemberInTransition.ID := ''B2''\<rparr>"

definition C3 :: MemberInTransition where
  "C3 = zero_MemberInTransition\<lparr>MemberInTransition.ID := ''C3''\<rparr>"

definition group_of :: "MemberInTransition list \<Rightarrow> getMembersInTransitionResults" where
  "group_of ms = zero_getMembersInTransitionResults\<lparr>getMembersInTransitionResults.Members := ms\<rparr>"

definition body_empty :: string where
  "body_empty = ''{\"results\":[]}''"

definition body_members :: string where
  "body_members =
     ''{\"results\":[{\"members\":[{\"id\":\"K000388\",\"first_name\":\"Amy\"}]},{\"members\":[{}]}]}''"

definition body_blank_member :: string where
  "body_blank_member = ''{\"results\":[{}]}''"

definition body_house :: string where
  "body_house = ''{\"results\":[{\"id\":\"H1\"}]}''"

definition body_senate :: string where
  "body_senate = ''{\"results\":[{\"id\":\"S1\"}]}''"

definition body_two_groups :: string where
  "body_two_groups =
     ''{\"results\":[{\"members\":[{\"id\":\"A1\"}]},{\"members\":[{\"id\":\"B2\"}]}]}''"

definition body_three_groups :: string where
  "body_three_groups =
     ''{\"results\":[{\"members\":[{\"id\":\"A1\"}]},{\"members\":[{\"id\":\"B2\"}]},{\"members\":[{\"id\":\"C3\"}]}]}''"

definition body_html :: string where
  "body_html = ''<html>502 Bad Gateway</html>''"

definition test_world :: "(string \<times> int \<times> ReadCloser) list \<Rightarrow> world" where
  "test_world script =
     \<lparr>NewRequest_rejects =
        (\<lambda>method url. if CHR '' '' \<in> set url then Some ''invalid character in URL'' else None),
      RoundTrip = scripted_network script,
      Unmarshal_getMembersResponse =
        scripted_decoder
          [(body_empty, zero_getMembersResponse),
           (body_members,
            zero_getMembersResponse
              \<lparr>getMembersResponse.Results :=
                 [zero_getMembersResults\<lparr>getMembersResults.Members := [K000388]\<rparr>,
                  zero_getMembersResults\<lparr>getMembersResults.Members := [zero_MemberSummary]\<rparr>]\<rparr>)],
      Unmarshal_getMemberResponse =
        scripted_decoder
          [(body_empty, zero_getMemberResponse),
           (body_blank_member,
            zero_getMemberResponse\<lparr>getMemberResponse.Results := [zero_MemberDetails]\<rparr>)],
      Unmarshal_getMembersByStateResponse =
        scripted_decoder
          [(body_empty, zero_getMembersByStateResponse),
           (body_house,
            zero_getMembersByStateResponse\<lparr>getMembersByStateResponse.Results := [H1]\<rparr>),
           (body_senate,
            zero_getMembersByStateResponse\<lparr>getMembersByStateResponse.Results := [S1]\<rparr>)],
      Unmarshal_getMembersInTransitionResponse =
        scripted_decoder
          [(body_empty, zero_getMembersInTransitionResponse),
           (body_two_groups,
            zero_getMembersInTransitionResponse
              \<lparr>getMembersInTransitionResponse.Results := [group_of [A1], group_of [B2]]\<rparr>),
           (body_three_groups,
            zero_getMembersInTransitionResponse
              \<lparr>getMembersInTransitionResponse.Results :=
                 [group_of [A1], group_of [B2], group_of [C3]]\<rparr>)]\<rparr>"

text \<open>The URLs of the concrete runs and the worlds they are made in.\<close>

definition test_urls :: "string list" where
  "test_urls =
     [''https://api.example/v1/115/senate/members.json'',
      ''https://api.example/v1/members/K000388.json'',
      ''https://api.example/v1/members/house/nj/current.json'',
      ''https://api.example/v1/members/senate/nj/current.json'',
      ''https://api.example/v1/members/house/nj/1/current.json'',
      ''https://api.example/v1/members/new.json'',
      ''https://api.example/v1/115/senate/members/leaving.json'']"

definition world_up :: world where
  "world_up =
     test_world
       (zip test_urls
          [(200, ReadCloser body_members None),
           (200, ReadCloser body_blank_member None),
           (200, ReadCloser body_house None),
           (200, ReadCloser body_senate None),
           (200, ReadCloser body_house None),
           (200, ReadCloser body_two_groups None),
           (200, ReadCloser body_three_groups None)])"

definition world_same_body :: "int \<Rightarrow> string \<Rightarrow> world" where
  "world_same_body code body = test_world (map (\<lambda>u. (u, code, ReadCloser body None)) test_urls)"

definition world_down :: world where
  "world_down = test_world []"

definition world_senate_down :: world where
  "world_senate_down =
     test_world
       [(''https://api.example/v1/members/house/nj/current.json'', 200,
         ReadCloser body_house None)]"

definition world_senate_html :: world where
  "world_senate_html =
     test_world
       [(''https://api.example/v1/members/house/nj/current.json'', 200,
         ReadCloser body_house None),
        (''https://api.example/v1/members/senate/nj/current.json'', 502,
         ReadCloser body_html None)]"

definition world_members :: "int \<Rightarrow> world" where
  "world_members code =
     test_world
       [(''https://api.example/v1/115/senate/members.json'', code,
         ReadCloser body_members None)]"

section \<open>Lemmas about the library calls and the log\<close>

lemmas op_defs = http_NewRequest_def Header_Add_def client_Do_def json_Unmarshal_def
  receives_body_def network_fails_def api_request_def

lemmas path_defs = path_members_def path_member_def path_current_state_def
  path_current_district_def path_new_def path_leaving_def

lemmas fixture_defs = test_world_def scripted_network_def scripted_decoder_def test_client_def
  test_urls_def world_up_def world_same_body_def world_down_def world_senate_down_def
  world_senate_html_def world_members_def
  body_empty_def body_members_def body_blank_member_def body_house_def body_senate_def
  body_two_groups_def body_three_groups_def body_html_def

lemmas fmt_d_numeral = fmt_d_def fmt_nat.simps

lemma requests_append [simp]: "requests (s @ t) = requests s @ requests t"
  by (induction s rule: requests.induct) simp_all

lemma decoded_append [simp]: "decoded (s @ t) = decoded s @ decoded t"
  by (induction s rule: decoded.induct) simp_all

section \<open>The operations, outcome by outcome\<close>

text \<open>
  For each single-request operation: what it returns and logs when the body arrives
  and decodes, when the body arrives and does not decode, and when the network call
  fails; that an error is never accompanied by entities; which requests it sends; and
  that overwriting the status codes changes nothing.
\<close>

lemma GetMembers_decoded:
  assumes "receives_body w c (Endpoint c @ path_members congress chamber) body"
    and "Unmarshal_getMembersResponse w body zero_getMembersResponse = (None, env)"
  shows "GetMembers w c congress chamber s =
           (((if length (getMembersResponse.Results env) > 0
             then getMembersResults.Members (getMembersResponse.Results env ! 0) else []), None),
            s @ [Sent (api_request c (Endpoint c @ path_members congress chamber)), Decode body])"
  using assms
  by (auto simp: GetMembers_def path_members_def op_defs
           split: sum.splits option.splits prod.splits)

lemma GetMembers_undecodable:
  assumes "receives_body w c (Endpoint c @ path_members congress chamber) body"
    and "Unmarshal_getMembersResponse w body zero_getMembersResponse = (Some msg, env)"
  shows "GetMembers w c congress chamber s =
           (([], Some (UnmarshalError msg)),
            s @ [Sent (api_request c (Endpoint c @ path_members congress chamber)), Decode body])"
  using assms
  by (auto simp: GetMembers_def path_members_def op_defs
           split: sum.splits option.splits prod.splits)

lemma GetMembers_network_failure:
  assumes "network_fails w c (Endpoint c @ path_members congress chamber) msg"
  shows "GetMembers w c congress chamber s =
           (([], Some (DoError msg)), s @ [Sent (api_request c (Endpoint c @ path_members congress chamber))])"
  using assms
  by (auto simp: GetMembers_def path_members_def op_defs
           split: sum.splits option.splits prod.splits)

lemma GetMembers_error_no_entities:
  assumes "GetMembers w c congress chamber s = ((members, Some err), s')"
  shows "members = []"
  using assms
  by (auto simp: GetMembers_def op_defs Let_def
           split: sum.splits option.splits prod.splits if_splits)

lemma GetMembers_requests:
  "requests (snd (GetMembers w c congress chamber s)) =
     requests s @
     (if NewRequest_rejects w ''GET'' (Endpoint c @ path_members congress chamber) = None
      then [api_request c (Endpoint c @ path_members congress chamber)] else [])"
  by (auto simp: GetMembers_def path_members_def op_defs Let_def
           split: sum.splits option.splits prod.splits)

lemma GetMembers_erase_status:
  "GetMembers (erase_status w) c congress chamber s = GetMembers w c congress chamber s"
  by (auto simp: GetMembers_def op_defs erase_status_def Let_def
           split: sum.splits option.splits prod.splits)

lemma GetMember_decoded:
  assumes "receives_body w c (Endpoint c @ path_member ident) body"
    and "Unmarshal_getMemberResponse w body zero_getMemberResponse = (None, env)"
  shows "GetMember w c ident s =
           (((if length (getMemberResponse.Results env) > 0
             then getMemberResponse.Results env ! 0 else zero_MemberDetails), None),
            s @ [Sent (api_request c (Endpoint c @ path_member ident)), Decode body])"
  using assms
  by (auto simp: GetMember_def path_member_def op_defs
           split: sum.splits option.splits prod.splits)

lemma GetMember_undecodable:
  assumes "receives_body w c (Endpoint c @ path_member ident) body"
    and "Unmarshal_getMemberResponse w body zero_getMemberResponse = (Some msg, env)"
  shows "GetMember w c ident s =
           ((zero_MemberDetails, Some (UnmarshalError msg)),
            s @ [Sent (api_request c (Endpoint c @ path_member ident)), Decode body])"
  using assms
  by (auto simp: GetMember_def path_member_def op_defs
           split: sum.splits option.splits prod.splits)

lemma GetMember_network_failure:
  assumes "network_fails w c (Endpoint c @ path_member ident) msg"
  shows "GetMember w c ident s =
           ((zero_MemberDetails, Some (DoError msg)), s @ [Sent (api_request c (Endpoint c @ path_member ident))])"
  using assms
  by (auto simp: GetMember_def path_member_def op_defs
           split: sum.splits option.splits prod.splits)

lemma GetMember_error_no_entities:
  assumes "GetMember w c ident s = ((members, Some err), s')"
  shows "members = zero_MemberDetails"
  using assms
  by (auto simp: GetMember_def op_defs Let_def
           split: sum.splits option.splits prod.splits if_splits)

lemma GetMember_requests:
  "requests (snd (GetMember w c ident s)) =
     requests s @
     (if NewRequest_rejects w ''GET'' (Endpoint c @ path_member ident) = None
      then [api_request c (Endpoint c @ path_member ident)] else [])"
  by (auto simp: GetMember_def path_member_def op_defs Let_def
           split: sum.splits option.splits prod.splits)

lemma GetMember_erase_status:
  "GetMember (erase_status w) c ident s = GetMember w c ident s"
  by (auto simp: GetMember_def op_defs erase_status_def Let_def
           split: sum.splits option.splits prod.splits)

lemma GetChamberMembersByState_decoded:
  assumes "receives_body w c (Endpoint c @ path_current_state chamber state) body"
    and "Unmarshal_getMembersByStateResponse w body zero_getMembersByStateResponse = (None, env)"
  shows "GetChamberMembersByState w c state chamber s =
           ((getMembersByStateResponse.Results env, None),
            s @ [Sent (api_request c (Endpoint c @ path_current_state chamber state)), Decode body])"
  using assms
  by (auto simp: GetChamberMembersByState_def path_current_state_def op_defs
           split: sum.splits option.splits prod.splits)

lemma GetChamberMembersByState_undecodable:
  assumes "receives_body w c (Endpoint c @ path_current_state chamber state) body"
    and "Unmarshal_getMembersByStateResponse w body zero_getMembersByStateResponse
        = (Some msg, env)"
  shows "GetChamberMembersByState w c state chamber s =
           (([], Some (UnmarshalError msg)),
            s @ [Sent (api_request c (Endpoint c @ path_current_state chamber state)), Decode body])"
  using assms
  by (auto simp: GetChamberMembersByState_def path_current_state_def op_defs
           split: sum.splits option.splits prod.splits)

lemma GetChamberMembersByState_network_failure:
  assumes "network_fails w c (Endpoint c @ path_current_state chamber state) msg"
  shows "GetChamberMembersByState w c state chamber s =
           (([], Some (DoError msg)), s @ [Sent (api_request c (Endpoint c @ path_current_state chamber state))])"
  using assms
  by (auto simp: GetChamberMembersByState_def path_current_state_def op_defs
           split: sum.splits option.splits prod.splits)

lemma GetChamberMembersByState_error_no_entities:
  assumes "GetChamberMembersByState w c state chamber s = ((members, Some err), s')"
  shows "members = []"
  using assms
  by (auto simp: GetChamberMembersByState_def op_defs Let_def
           split: sum.splits option.splits prod.splits if_splits)

lemma GetChamberMembersByState_requests:
  "requests (snd (GetChamberMembersByState w c state chamber s)) =
     requests s @
     (if NewRequest_rejects w ''GET'' (Endpoint c @ path_current_state chamber state) = None
      then [api_request c (Endpoint c @ path_current_state chamber state)] else [])"
  by (auto simp: GetChamberMembersByState_def path_current_state_def op_defs Let_def
           split: sum.splits option.splits prod.splits)

lemma GetChamberMembersByState_erase_status:
  "GetChamberMembersByState (erase_status w) c state chamber s = GetChamberMembersByState w c state chamber s"
  by (auto simp: GetChamberMembersByState_def op_defs erase_status_def Let_def
           split: sum.splits option.splits prod.splits)

lemma GetChamberMembersByDistrict_decoded:
  assumes "receives_body w c (Endpoint c @ path_current_district chamber state district) body"
    and "Unmarshal_getMembersByStateResponse w body zero_getMembersByStateResponse = (None, env)"
  shows "GetChamberMembersByDistrict w c state district chamber s =
           ((getMembersByStateResponse.Results env, None),
            s @ [Sent (api_request c (Endpoint c @ path_current_district chamber state district)), Decode body])"
  using assms
  by (auto simp: GetChamberMembersByDistrict_def path_current_district_def op_defs
           split: sum.splits option.splits prod.splits)

lemma GetChamberMembersByDistrict_undecodable:
  assumes "receives_body w c (Endpoint c @ path_current_district chamber state district) body"
    and "Unmarshal_getMembersByStateResponse w body zero_getMembersByStateResponse
        = (Some msg, env)"
  shows "GetChamberMembersByDistrict w c state district chamber s =
           (([], Some (UnmarshalError msg)),
            s @ [Sent (api_request c (Endpoint c @ path_current_district chamber state district)), Decode body])"
  using assms
  by (auto simp: GetChamberMembersByDistrict_def path_current_district_def op_defs
           split: sum.splits option.splits prod.splits)

lemma GetChamberMembersByDistrict_network_failure:
  assumes "network_fails w c (Endpoint c @ path_current_district chamber state district) msg"
  shows "GetChamberMembersByDistrict w c state district chamber s =
           (([], Some (DoError msg)), s @ [Sent (api_request c (Endpoint c @ path_current_district chamber state district))])"
  using assms
  by (auto simp: GetChamberMembersByDistrict_def path_current_district_def op_defs
           split: sum.splits option.splits prod.splits)

lemma GetChamberMembersByDistrict_error_no_entities:
  assumes "GetChamberMembersByDistrict w c state district chamber s = ((members, Some err), s')"
  shows "members = []"
  using assms
  by (auto simp: GetChamberMembersByDistrict_def op_defs Let_def
           split: sum.splits option.splits prod.splits if_splits)

lemma GetChamberMembersByDistrict_requests:
  "requests (snd (GetChamberMembersByDistrict w c state district chamber s)) =
     requests s @
     (if NewRequest_rejects w ''GET'' (Endpoint c @ path_current_district chamber state district) = None
      then [api_request c (Endpoint c @ path_current_district chamber state district)] else [])"
  by (auto simp: GetChamberMembersByDistrict_def path_current_district_def op_defs Let_def
           split: sum.splits option.splits prod.splits)

lemma GetChamberMembersByDistrict_erase_status:
  "GetChamberMembersByDistrict (erase_status w) c state district chamber s = GetChamberMembersByDistrict w c state district chamber s"
  by (auto simp: GetChamberMembersByDistrict_def op_defs erase_status_def Let_def
           split: sum.splits option.splits prod.splits)

lemma GetNewMembers_decoded:
  assumes "receives_body w c (Endpoint c @ path_new) body"
    and "Unmarshal_getMembersInTransitionResponse w body zero_getMembersInTransitionResponse
        = (None, env)"
  shows "GetNewMembers w c s =
           (((if length (getMembersInTransitionResponse.Results env) > 0
             then getMembersInTransitionResults.Members
                    (getMembersInTransitionResponse.Results env ! 0) else []), None),
            s @ [Sent (api_request c (Endpoint c @ path_new)), Decode body])"
  using assms
  by (auto simp: GetNewMembers_def path_new_def op_defs
           split: sum.splits option.splits prod.splits)

lemma GetNewMembers_undecodable:
  assumes "receives_body w c (Endpoint c @ path_new) body"
    and "Unmarshal_getMembersInTransitionResponse w body zero_getMembersInTransitionResponse
        = (Some msg, env)"
  shows "GetNewMembers w c s =
           (([], Some (UnmarshalError msg)),
            s @ [Sent (api_request c (Endpoint c @ path_new)), Decode body])"
  using assms
  by (auto simp: GetNewMembers_def path_new_def op_defs
           split: sum.splits option.splits prod.splits)

lemma GetNewMembers_network_failure:
  assumes "network_fails w c (Endpoint c @ path_new) msg"
  shows "GetNewMembers w c s =
           (([], Some (DoError msg)), s @ [Sent (api_request c (Endpoint c @ path_new))])"
  using assms
  by (auto simp: GetNewMembers_def path_new_def op_defs
           split: sum.splits option.splits prod.splits)

lemma GetNewMembers_error_no_entities:
  assumes "GetNewMembers w c s = ((members, Some err), s')"
  shows "members = []"
  using assms
  by (auto simp: GetNewMembers_def op_defs Let_def
           split: sum.splits option.splits prod.splits if_splits)

lemma GetNewMembers_requests:
  "requests (snd (GetNewMembers w c s)) =
     requests s @
     (if NewRequest_rejects w ''GET'' (Endpoint c @ path_new) = None
      then [api_request c (Endpoint c @ path_new)] else [])"
  by (auto simp: GetNewMembers_def path_new_def op_defs Let_def
           split: sum.splits option.splits prod.splits)

lemma GetNewMembers_erase_status:
  "GetNewMembers (erase_status w) c s = GetNewMembers w c s"
  by (auto simp: GetNewMembers_def op_defs erase_status_def Let_def
           split: sum.splits option.splits prod.splits)

lemma GetDepartingMembers_decoded:
  assumes "receives_body w c (Endpoint c @ path_leaving congress chamber) body"
    and "Unmarshal_getMembersInTransitionResponse w body zero_getMembersInTransitionResponse
        = (None, env)"
  shows "GetDepartingMembers w c congress chamber s =
           ((concat (map getMembersInTransitionResults.Members
                      (take 2 (getMembersInTransitionResponse.Results env))), None),
            s @ [Sent (api_request c (Endpoint c @ path_leaving congress chamber)), Decode body])"
proof (cases "getMembersInTransitionResponse.Results env")
  case Nil
  with assms show ?thesis
    by (auto simp: GetDepartingMembers_def path_leaving_def op_defs
             split: sum.splits option.splits prod.splits)
next
  case (Cons g gs)
  with assms show ?thesis
    by (cases gs)
       (auto simp: GetDepartingMembers_def path_leaving_def op_defs
             split: sum.splits option.splits prod.splits)
qed

lemma GetDepartingMembers_undecodable:
  assumes "receives_body w c (Endpoint c @ path_leaving congress chamber) body"
    and "Unmarshal_getMembersInTransitionResponse w body zero_getMembersInTransitionResponse
        = (Some msg, env)"
  shows "GetDepartingMembers w c congress chamber s =
           (([], Some (UnmarshalError msg)),
            s @ [Sent (api_request c (Endpoint c @ path_leaving congress chamber)), Decode body])"
  using assms
  by (auto simp: GetDepartingMembers_def path_leaving_def op_defs
           split: sum.splits option.splits prod.splits)

lemma GetDepartingMembers_network_failure:
  assumes "network_fails w c (Endpoint c @ path_leaving congress chamber) msg"
  shows "GetDepartingMembers w c congress chamber s =
           (([], Some (DoError msg)), s @ [Sent (api_request c (Endpoint c @ path_leaving congress chamber))])"
  using assms
  by (auto simp: GetDepartingMembers_def path_leaving_def op_defs
           split: sum.splits option.splits prod.splits)

lemma GetDepartingMembers_error_no_entities:
  assumes "GetDepartingMembers w c congress chamber s = ((members, Some err), s')"
  shows "members = []"
  using assms
  by (auto simp: GetDepartingMembers_def op_defs Let_def
           split: sum.splits option.splits prod.splits if_splits)

lemma GetDepartingMembers_requests:
  "requests (snd (GetDepartingMembers w c congress chamber s)) =
     requests s @
     (if NewRequest_rejects w ''GET'' (Endpoint c @ path_leaving congress chamber) = None
      then [api_request c (Endpoint c @ path_leaving congress chamber)] else [])"
  by (auto simp: GetDepartingMembers_def path_leaving_def op_defs Let_def
           split: sum.splits option.splits prod.splits)

lemma GetDepartingMembers_erase_status:
  "GetDepartingMembers (erase_status w) c congress chamber s = GetDepartingMembers w c congress chamber s"
  by (auto simp: GetDepartingMembers_def op_defs erase_status_def Let_def
           split: sum.splits option.splits prod.splits)

section \<open>The composite, outcome by outcome\<close>

lemma GetMembersByState_house_error:
  assumes "GetChamberMembersByState w c state ''house'' s = ((house, Some err), s1)"
  shows "GetMembersByState w c state s = (([], Some err), s1)"
  using assms GetChamberMembersByState_error_no_entities [OF assms]
  by (simp add: GetMembersByState_def)

lemma GetMembersByState_senate_error:
  assumes "GetChamberMembersByState w c state ''house'' s = ((house, None), s1)"
    and "GetChamberMembersByState w c state ''senate'' s1 = ((senate, Some err), s2)"
  shows "GetMembersByState w c state s = ((house, Some err), s2)"
  using assms by (simp add: GetMembersByState_def)

lemma GetMembersByState_both:
  assumes "GetChamberMembersByState w c state ''house'' s = ((house, None), s1)"
    and "GetChamberMembersByState w c state ''senate'' s1 = ((senate, None), s2)"
  shows "GetMembersByState w c state s = ((house @ senate, None), s2)"
  using assms by (simp add: GetMembersByState_def)

lemma GetMembersByState_erase_status:
  "GetMembersByState (erase_status w) c state s = GetMembersByState w c state s"
  by (simp add: GetMembersByState_def GetChamberMembersByState_erase_status
        split: prod.splits option.splits)

lemma GetMembersByState_decoded:
  assumes "receives_body w c (Endpoint c @ path_current_state ''house'' state) bodyH"
    and "Unmarshal_getMembersByStateResponse w bodyH zero_getMembersByStateResponse
           = (None, envH)"
    and "receives_body w c (Endpoint c @ path_current_state ''senate'' state) bodyS"
    and "Unmarshal_getMembersByStateResponse w bodyS zero_getMembersByStateResponse
           = (None, envS)"
  shows "GetMembersByState w c state s =
           ((getMembersByStateResponse.Results envH @ getMembersByStateResponse.Results envS,
             None),
            s @ [Sent (api_request c (Endpoint c @ path_current_state ''house'' state)),
                 Decode bodyH,
                 Sent (api_request c (Endpoint c @ path_current_state ''senate'' state)),
                 Decode bodyS])"
  by (rule trans [OF GetMembersByState_both
                       [OF GetChamberMembersByState_decoded [OF assms(1,2)]
                           GetChamberMembersByState_decoded [OF assms(3,4)]]])
     simp

lemma GetMembersByState_house_undecodable:
  assumes "receives_body w c (Endpoint c @ path_current_state ''house'' state) bodyH"
    and "Unmarshal_getMembersByStateResponse w bodyH zero_getMembersByStateResponse
           = (Some msg, envH)"
  shows "GetMembersByState w c state s =
           (([], Some (UnmarshalError msg)),
            s @ [Sent (api_request c (Endpoint c @ path_current_state ''house'' state)),
                 Decode bodyH])"
  by (rule GetMembersByState_house_error [OF GetChamberMembersByState_undecodable [OF assms]])

lemma GetMembersByState_senate_undecodable:
  assumes "receives_body w c (Endpoint c @ path_current_state ''house'' state) bodyH"
    and "Unmarshal_getMembersByStateResponse w bodyH zero_getMembersByStateResponse
           = (None, envH)"
    and "receives_body w c (Endpoint c @ path_current_state ''senate'' state) bodyS"
    and "Unmarshal_getMembersByStateResponse w bodyS zero_getMembersByStateResponse
           = (Some msg, envS)"
  shows "GetMembersByState w c state s =
           ((getMembersByStateResponse.Results envH, Some (UnmarshalError msg)),
            s @ [Sent (api_request c (Endpoint c @ path_current_state ''house'' state)),
                 Decode bodyH,
                 Sent (api_request c (Endpoint c @ path_current_state ''senate'' state)),
                 Decode bodyS])"
  by (rule trans [OF GetMembersByState_senate_error
                       [OF GetChamberMembersByState_decoded [OF assms(1,2)]
                           GetChamberMembersByState_undecodable [OF assms(3,4)]]])
     simp

lemma GetMembersByState_house_network_failure:
  assumes "network_fails w c (Endpoint c @ path_current_state ''house'' state) msg"
  shows "GetMembersByState w c state s =
           (([], Some (DoError msg)),
            s @ [Sent (api_request c (Endpoint c @ path_current_state ''house'' state))])"
  by (rule GetMembersByState_house_error
             [OF GetChamberMembersByState_network_failure [OF assms]])

lemma GetMembersByState_senate_network_failure:
  assumes "receives_body w c (Endpoint c @ path_current_state ''house'' state) bodyH"
    and "Unmarshal_getMembersByStateResponse w bodyH zero_getMembersByStateResponse
           = (None, envH)"
    and "network_fails w c (Endpoint c @ path_current_state ''senate'' state) msg"
  shows "GetMembersByState w c state s =
           ((getMembersByStateResponse.Results envH, Some (DoError msg)),
            s @ [Sent (api_request c (Endpoint c @ path_current_state ''house'' state)),
                 Decode bodyH,
                 Sent (api_request c (Endpoint c @ path_current_state ''senate'' state))])"
  by (rule trans [OF GetMembersByState_senate_error
                       [OF GetChamberMembersByState_decoded [OF assms(1,2)]
                           GetChamberMembersByState_network_failure [OF assms(3)]]])
     simp

lemma GetMembersByState_requests:
  "requests (snd (GetMembersByState w c state s)) =
     requests s @
     (if NewRequest_rejects w ''GET'' (Endpoint c @ path_current_state ''house'' state) = None
      then [api_request c (Endpoint c @ path_current_state ''house'' state)] else []) @
     (if snd (fst (GetChamberMembersByState w c state ''house'' s)) = None \<and>
         NewRequest_rejects w ''GET'' (Endpoint c @ path_current_state ''senate'' state) = None
      then [api_request c (Endpoint c @ path_current_state ''senate'' state)] else [])"
proof (cases "GetChamberMembersByState w c state ''house'' s")
  case (Pair r s1)
  obtain house herr where r: "r = (house, herr)" by (cases r)
  have h: "requests s1 =
             requests s @
             (if NewRequest_rejects w ''GET'' (Endpoint c @ path_current_state ''house'' state)
                   = None
              then [api_request c (Endpoint c @ path_current_state ''house'' state)] else [])"
    using GetChamberMembersByState_requests [of w c state "''house''" s] Pair by simp
  show ?thesis
  proof (cases herr)
    case None
    obtain r2 s2 where p2: "GetChamberMembersByState w c state ''senate'' s1 = (r2, s2)"
      by (cases "GetChamberMembersByState w c state ''senate'' s1")
    obtain senate serr where r2: "r2 = (senate, serr)" by (cases r2)
    have s: "requests s2 =
               requests s1 @
               (if NewRequest_rejects w ''GET''
                     (Endpoint c @ path_current_state ''senate'' state) = None
                then [api_request c (Endpoint c @ path_current_state ''senate'' state)]
                else [])"
      using GetChamberMembersByState_requests [of w c state "''senate''" s1] p2 by simp
    have "snd (GetMembersByState w c state s) = s2"
      using Pair r None p2 r2 by (cases serr) (simp_all add: GetMembersByState_def)
    with h s Pair r None show ?thesis by simp
  next
    case (Some e)
    have "snd (GetMembersByState w c state s) = s1"
      using Pair r Some by (simp add: GetMembersByState_def)
    with h Pair r Some show ?thesis by simp
  qed
qed

section \<open>The claims\<close>

subsection \<open>C1\<close>

text \<open>
  C1. For the two-call composite \<^verbatim>\<open>GetMembersByState\<close>, if either underlying
  chamber call (house first, then senate) fails, the composite fails with that call's
  error. As amended: it returns no entities when the house call is the one that fails;
  when the house call succeeds and the senate call fails, the entities of the house call
  are returned alongside the senate call's error (the named result that holds them is
  not cleared).
\<close>

theorem GetMembersByState_failure:
  assumes "GetChamberMembersByState w c state ''house'' s = ((house, herr), s1)"
    and "GetChamberMembersByState w c state ''senate'' s1 = ((senate, serr), s2)"
  shows "(herr \<noteq> None \<longrightarrow>
            GetMembersByState w c state s = (([], herr), s1)) \<and>
         (herr = None \<and> serr \<noteq> None \<longrightarrow>
            GetMembersByState w c state s = ((house, serr), s2))"
proof (intro conjI impI)
  assume "herr \<noteq> None"
  then obtain e where "herr = Some e" by auto
  with assms(1) show "GetMembersByState w c state s = (([], herr), s1)"
    by (simp add: GetMembersByState_house_error)
next
  assume "herr = None \<and> serr \<noteq> None"
  then obtain e where "herr = None" and "serr = Some e" by auto
  with assms show "GetMembersByState w c state s = ((house, serr), s2)"
    by (simp add: GetMembersByState_senate_error)
qed

text \<open>
  The claim as stated fails where the house call succeeds with one entity and the
  network refuses the senate call: the composite returns that entity with the error.
\<close>

theorem GetMembersByState_partial_result_counterexample:
  "fst (GetChamberMembersByState world_senate_down test_client ''nj'' ''house'' [])
     = ([H1], None) \<and>
   fst (GetChamberMembersByState world_senate_down test_client ''nj'' ''senate''
          (snd (GetChamberMembersByState world_senate_down test_client ''nj'' ''house'' [])))
     = ([], Some (DoError ''connection refused'')) \<and>
   fst (GetMembersByState world_senate_down test_client ''nj'' [])
     = ([H1], Some (DoError ''connection refused'')) \<and>
   fst (fst (GetMembersByState world_senate_down test_client ''nj'' [])) \<noteq> []"
  by (simp add: GetMembersByState_def GetChamberMembersByState_def op_defs fixture_defs)

theorem GetMembersByState_failure_witness:
  "GetMembersByState world_down test_client ''nj'' []
     = (([], Some (DoError ''connection refused'')),
        [Sent (api_request test_client
                 ''https://api.example/v1/members/house/nj/current.json'')]) \<and>
   GetMembersByState world_senate_down test_client ''nj'' []
     = (([H1], Some (DoError ''connection refused'')),
        [Sent (api_request test_client
                 ''https://api.example/v1/members/house/nj/current.json''),
         Decode body_house,
         Sent (api_request test_client
                 ''https://api.example/v1/members/senate/nj/current.json'')])"
proof -
  let ?h = "Sent (api_request test_client
                    ''https://api.example/v1/members/house/nj/current.json'')"
  let ?s = "Sent (api_request test_client
                    ''https://api.example/v1/members/senate/nj/current.json'')"
  let ?e = "Some (DoError ''connection refused'')"
  have down_house:
    "GetChamberMembersByState world_down test_client ''nj'' ''house'' [] = (([], ?e), [?h])"
    by (simp add: GetChamberMembersByState_def op_defs fixture_defs)
  have down_senate:
    "GetChamberMembersByState world_down test_client ''nj'' ''senate'' [?h]
       = (([], ?e), [?h, ?s])"
    by (simp add: GetChamberMembersByState_def op_defs fixture_defs)
  have house:
    "GetChamberMembersByState world_senate_down test_client ''nj'' ''house'' []
       = (([H1], None), [?h, Decode body_house])"
    by (simp add: GetChamberMembersByState_def op_defs fixture_defs)
  have senate:
    "GetChamberMembersByState world_senate_down test_client ''nj'' ''senate''
       [?h, Decode body_house] = (([], ?e), [?h, Decode body_house, ?s])"
    by (simp add: GetChamberMembersByState_def op_defs fixture_defs)
  from GetMembersByState_failure [OF down_house down_senate]
    GetMembersByState_failure [OF house senate]
  show ?thesis by simp
qed

subsection \<open>C2\<close>

text \<open>
  C2. For every well-formed departing-members envelope whose results field contains N
  groups, \<^verbatim>\<open>GetDepartingMembers\<close> returns the concatenation of the members
  lists in group order, preserving the order within each group. As amended: of the first
  two groups (the two guarded statements read \<^verbatim>\<open>Results[0]\<close> and
  \<^verbatim>\<open>Results[1]\<close>); that is every group when N is at most 2, and groups after the
  second are not returned.
\<close>

theorem GetDepartingMembers_first_two_groups:
  assumes "receives_body w c (Endpoint c @ path_leaving congress chamber) body"
    and "Unmarshal_getMembersInTransitionResponse w body zero_getMembersInTransitionResponse
           = (None, env)"
  shows "fst (GetDepartingMembers w c congress chamber s)
           = (concat (map getMembersInTransitionResults.Members
                        (take 2 (getMembersInTransitionResponse.Results env))), None) \<and>
         (length (getMembersInTransitionResponse.Results env) \<le> 2 \<longrightarrow>
            fst (GetDepartingMembers w c congress chamber s)
              = (concat (map getMembersInTransitionResults.Members
                           (getMembersInTransitionResponse.Results env)), None))"
  using assms by (simp add: GetDepartingMembers_decoded [where s = s])

text \<open>
  The claim as stated fails at N = 3: of the groups \<open>[A1]\<close>, \<open>[B2]\<close>, \<open>[C3]\<close> the
  operation returns \<open>A1\<close> and \<open>B2\<close> only.
\<close>

theorem GetDepartingMembers_three_groups_counterexample:
  "receives_body world_up test_client (Endpoint test_client @ path_leaving 115 ''senate'')
     body_three_groups \<and>
   Unmarshal_getMembersInTransitionResponse world_up body_three_groups
     zero_getMembersInTransitionResponse
     = (None, zero_getMembersInTransitionResponse
                \<lparr>getMembersInTransitionResponse.Results :=
                   [group_of [A1], group_of [B2], group_of [C3]]\<rparr>) \<and>
   concat (map getMembersInTransitionResults.Members
             [group_of [A1], group_of [B2], group_of [C3]]) = [A1, B2, C3] \<and>
   fst (GetDepartingMembers world_up test_client 115 ''senate'' []) = ([A1, B2], None) \<and>
   fst (fst (GetDepartingMembers world_up test_client 115 ''senate'' []))
     \<noteq> concat (map getMembersInTransitionResults.Members
                  [group_of [A1], group_of [B2], group_of [C3]])"
  by (simp add: GetDepartingMembers_def op_defs fixture_defs path_defs fmt_d_numeral
        group_of_def)

theorem GetDepartingMembers_first_two_groups_witness:
  "fst (GetDepartingMembers world_up test_client 115 ''senate'' []) = ([A1, B2], None) \<and>
   fst (GetDepartingMembers
          (test_world [(''https://api.example/v1/115/house/members/leaving.json'', 200,
                        ReadCloser body_two_groups None)])
          test_client 115 ''house'' [])
     = (concat (map getMembersInTransitionResults.Members [group_of [A1], group_of [B2]]),
        None)"
proof -
  let ?w2 = "test_world [(''https://api.example/v1/115/house/members/leaving.json'', 200,
                          ReadCloser body_two_groups None)]"
  let ?env3 = "zero_getMembersInTransitionResponse
                 \<lparr>getMembersInTransitionResponse.Results :=
                    [group_of [A1], group_of [B2], group_of [C3]]\<rparr>"
  let ?env2 = "zero_getMembersInTransitionResponse
                 \<lparr>getMembersInTransitionResponse.Results := [group_of [A1], group_of [B2]]\<rparr>"
  have r3: "receives_body world_up test_client
              (Endpoint test_client @ path_leaving 115 ''senate'') body_three_groups"
    by (simp add: receives_body_def api_request_def fixture_defs path_defs fmt_d_numeral)
  have d3: "Unmarshal_getMembersInTransitionResponse world_up body_three_groups
              zero_getMembersInTransitionResponse = (None, ?env3)"
    by (simp add: fixture_defs)
  have r2: "receives_body ?w2 test_client
              (Endpoint test_client @ path_leaving 115 ''house'') body_two_groups"
    by (simp add: receives_body_def api_request_def fixture_defs path_defs fmt_d_numeral)
  have d2: "Unmarshal_getMembersInTransitionResponse ?w2 body_two_groups
              zero_getMembersInTransitionResponse = (None, ?env2)"
    by (simp add: fixture_defs)
  from GetDepartingMembers_first_two_groups [OF r3 d3, of "[]"]
    GetDepartingMembers_first_two_groups [OF r2 d2, of "[]"]
  show ?thesis by (simp add: group_of_def)
qed

subsection \<open>C3\<close>

text \<open>
  C3. For every well-formed envelope decoded with the direct-list strategy
  (\<^verbatim>\<open>GetChamberMembersByState\<close> and \<^verbatim>\<open>GetChamberMembersByDistrict\<close>),
  the operation returns exactly the entities of the envelope's results list, in the
  original order, none dropped and none duplicated: whenever the body arrives and
  \<^verbatim>\<open>json.Unmarshal\<close> decodes it without error into an envelope, the returned
  list is the \<^verbatim>\<open>Results\<close> list of that envelope and the error is nil.
\<close>

theorem direct_list_returns_results:
  "(receives_body w c (Endpoint c @ path_current_state chamber state) body \<and>
    Unmarshal_getMembersByStateResponse w body zero_getMembersByStateResponse = (None, env)
    \<longrightarrow> fst (GetChamberMembersByState w c state chamber s)
          = (getMembersByStateResponse.Results env, None)) \<and>
   (receives_body w c (Endpoint c @ path_current_district chamber' state' district) body' \<and>
    Unmarshal_getMembersByStateResponse w body' zero_getMembersByStateResponse = (None, env')
    \<longrightarrow> fst (GetChamberMembersByDistrict w c state' district chamber' s)
          = (getMembersByStateResponse.Results env', None))"
proof (intro conjI impI; elim conjE)
  assume "receives_body w c (Endpoint c @ path_current_state chamber state) body"
    and "Unmarshal_getMembersByStateResponse w body zero_getMembersByStateResponse = (None, env)"
  then show "fst (GetChamberMembersByState w c state chamber s)
               = (getMembersByStateResponse.Results env, None)"
    by (simp add: GetChamberMembersByState_decoded [where s = s])
next
  assume "receives_body w c (Endpoint c @ path_current_district chamber' state' district) body'"
    and "Unmarshal_getMembersByStateResponse w body' zero_getMembersByStateResponse = (None, env')"
  then show "fst (GetChamberMembersByDistrict w c state' district chamber' s)
               = (getMembersByStateResponse.Results env', None)"
    by (simp add: GetChamberMembersByDistrict_decoded [where s = s])
qed

theorem direct_list_returns_results_witness:
  "receives_body world_up test_client
     (Endpoint test_client @ path_current_state ''senate'' ''nj'') body_senate \<and>
   receives_body world_up test_client
     (Endpoint test_client @ path_current_district ''house'' ''nj'' 1) body_house \<and>
   fst (GetChamberMembersByState world_up test_client ''nj'' ''senate'' []) = ([S1], None) \<and>
   fst (GetChamberMembersByDistrict world_up test_client ''nj'' 1 ''house'' []) = ([H1], None)"
proof -
  let ?envS = "zero_getMembersByStateResponse\<lparr>getMembersByStateResponse.Results := [S1]\<rparr>"
  let ?envH = "zero_getMembersByStateResponse\<lparr>getMembersByStateResponse.Results := [H1]\<rparr>"
  have r1: "receives_body world_up test_client
              (Endpoint test_client @ path_current_state ''senate'' ''nj'') body_senate"
    by (simp add: receives_body_def api_request_def fixture_defs path_defs)
  have r2: "receives_body world_up test_client
              (Endpoint test_client @ path_current_district ''house'' ''nj'' 1) body_house"
    by (simp add: receives_body_def api_request_def fixture_defs path_defs fmt_d_numeral)
  have d1: "Unmarshal_getMembersByStateResponse world_up body_senate
              zero_getMembersByStateResponse = (None, ?envS)"
    by (simp add: fixture_defs)
  have d2: "Unmarshal_getMembersByStateResponse world_up body_house
              zero_getMembersByStateResponse = (None, ?envH)"
    by (simp add: fixture_defs)
  from r1 r2 d1 d2
    direct_list_returns_results
      [where w = world_up and c = test_client and chamber = "''senate''" and state = "''nj''"
         and chamber' = "''house''" and state' = "''nj''" and district = 1 and body = body_senate and body' = body_house and s = "[]"
         and env = ?envS and env' = ?envH]
  show ?thesis by simp
qed

subsection \<open>C4\<close>

text \<open>
  C4. For every well-formed envelope decoded with the first-group strategy
  (\<^verbatim>\<open>GetMembers\<close> and \<^verbatim>\<open>GetNewMembers\<close>), the operation returns exactly
  the entity list nested in the first results group and ignores any subsequent groups:
  when the decoded envelope's results are a group \<open>g\<close> followed by any groups \<open>gs\<close>,
  the returned list is the members list of \<open>g\<close>, whatever \<open>gs\<close> is, and the error is nil.
\<close>

theorem first_group_only:
  "(receives_body w c (Endpoint c @ path_members congress chamber) body \<and>
    Unmarshal_getMembersResponse w body zero_getMembersResponse = (None, env) \<and>
    getMembersResponse.Results env = g # gs
    \<longrightarrow> fst (GetMembers w c congress chamber s)
        = (getMembersResults.Members g, None)) \<and>
   (receives_body w c (Endpoint c @ path_new) body' \<and>
    Unmarshal_getMembersInTransitionResponse w body' zero_getMembersInTransitionResponse
      = (None, env') \<and>
    getMembersInTransitionResponse.Results env' = g' # gs'
    \<longrightarrow> fst (GetNewMembers w c s) = (getMembersInTransitionResults.Members g', None))"
proof (intro conjI impI; elim conjE)
  assume "receives_body w c (Endpoint c @ path_members congress chamber) body"
    and "Unmarshal_getMembersResponse w body zero_getMembersResponse = (None, env)"
    and "getMembersResponse.Results env = g # gs"
  then show "fst (GetMembers w c congress chamber s) = (getMembersResults.Members g, None)"
    by (simp add: GetMembers_decoded [where s = s])
next
  assume "receives_body w c (Endpoint c @ path_new) body'"
    and "Unmarshal_getMembersInTransitionResponse w body' zero_getMembersInTransitionResponse
           = (None, env')"
    and "getMembersInTransitionResponse.Results env' = g' # gs'"
  then show "fst (GetNewMembers w c s) = (getMembersInTransitionResults.Members g', None)"
    by (simp add: GetNewMembers_decoded [where s = s])
qed

theorem first_group_only_witness:
  "getMembersResponse.Results
     (snd (Unmarshal_getMembersResponse world_up body_members zero_getMembersResponse))
     = [zero_getMembersResults\<lparr>getMembersResults.Members := [K000388]\<rparr>,
        zero_getMembersResults\<lparr>getMembersResults.Members := [zero_MemberSummary]\<rparr>] \<and>
   fst (GetMembers world_up test_client 115 ''senate'' []) = ([K000388], None) \<and>
   getMembersInTransitionResponse.Results
     (snd (Unmarshal_getMembersInTransitionResponse world_up body_two_groups
             zero_getMembersInTransitionResponse))
     = [group_of [A1], group_of [B2]] \<and>
   fst (GetNewMembers world_up test_client []) = ([A1], None)"
proof -
  let ?g = "zero_getMembersResults\<lparr>getMembersResults.Members := [K000388]\<rparr>"
  let ?gs = "[zero_getMembersResults\<lparr>getMembersResults.Members := [zero_MemberSummary]\<rparr>]"
  let ?env = "zero_getMembersResponse\<lparr>getMembersResponse.Results := ?g # ?gs\<rparr>"
  let ?env' = "zero_getMembersInTransitionResponse
                 \<lparr>getMembersInTransitionResponse.Results := [group_of [A1], group_of [B2]]\<rparr>"
  have r1: "receives_body world_up test_client
              (Endpoint test_client @ path_members 115 ''senate'') body_members"
    by (simp add: receives_body_def api_request_def fixture_defs path_defs fmt_d_numeral)
  have r2: "receives_body world_up test_client (Endpoint test_client @ path_new) body_two_groups"
    by (simp add: receives_body_def api_request_def fixture_defs path_defs)
  have d1: "Unmarshal_getMembersResponse world_up body_members zero_getMembersResponse
              = (None, ?env)"
    by (simp add: fixture_defs)
  have d2: "Unmarshal_getMembersInTransitionResponse world_up body_two_groups
              zero_getMembersInTransitionResponse = (None, ?env')"
    by (simp add: fixture_defs)
  from r1 r2 d1 d2
    first_group_only
      [where w = world_up and c = test_client and congress = 115 and chamber = "''senate''"
         and body = body_members and env = ?env and g = ?g and gs = ?gs
         and body' = body_two_groups and env' = ?env' and g' = "group_of [A1]"
         and gs' = "[group_of [B2]]" and s = "[]"]
  show ?thesis by (simp add: group_of_def)
qed

subsection \<open>C5\<close>

text \<open>
  C5. For every well-formed envelope whose results list is empty, every list-returning
  operation (any unwrap strategy) returns an empty entity list and no error; absence of
  the expected nesting is never reported as a failure. For the composite
  \<^verbatim>\<open>GetMembersByState\<close> both of its calls receive such an envelope.
\<close>

theorem empty_results_empty_list:
  "(receives_body w c (Endpoint c @ path_members congressM chamberM) bodyM \<and>
    Unmarshal_getMembersResponse w bodyM zero_getMembersResponse = (None, envM) \<and>
    getMembersResponse.Results envM = []
    \<longrightarrow> fst (GetMembers w c congressM chamberM s) = ([], None)) \<and>
   (receives_body w c (Endpoint c @ path_current_state chamberS stateS) bodyS \<and>
    Unmarshal_getMembersByStateResponse w bodyS zero_getMembersByStateResponse = (None, envS) \<and>
    getMembersByStateResponse.Results envS = []
    \<longrightarrow> fst (GetChamberMembersByState w c stateS chamberS s) = ([], None)) \<and>
   (receives_body w c (Endpoint c @ path_current_state ''house'' stateB) bodyBH \<and>
    Unmarshal_getMembersByStateResponse w bodyBH zero_getMembersByStateResponse
      = (None, envBH) \<and>
    getMembersByStateResponse.Results envBH = [] \<and>
    receives_body w c (Endpoint c @ path_current_state ''senate'' stateB) bodyBS \<and>
    Unmarshal_getMembersByStateResponse w bodyBS zero_getMembersByStateResponse
      = (None, envBS) \<and>
    getMembersByStateResponse.Results envBS = []
    \<longrightarrow> fst (GetMembersByState w c stateB s) = ([], None)) \<and>
   (receives_body w c (Endpoint c @ path_current_district chamberT stateT district) bodyT \<and>
    Unmarshal_getMembersByStateResponse w bodyT zero_getMembersByStateResponse = (None, envT) \<and>
    getMembersByStateResponse.Results envT = []
    \<longrightarrow> fst (GetChamberMembersByDistrict w c stateT district chamberT s)
        = ([], None)) \<and>
   (receives_body w c (Endpoint c @ path_new) bodyN \<and>
    Unmarshal_getMembersInTransitionResponse w bodyN zero_getMembersInTransitionResponse
      = (None, envN) \<and>
    getMembersInTransitionResponse.Results envN = []
    \<longrightarrow> fst (GetNewMembers w c s) = ([], None)) \<and>
   (receives_body w c (Endpoint c @ path_leaving congressL chamberL) bodyL \<and>
    Unmarshal_getMembersInTransitionResponse w bodyL zero_getMembersInTransitionResponse
      = (None, envL) \<and>
    getMembersInTransitionResponse.Results envL = []
    \<longrightarrow> fst (GetDepartingMembers w c congressL chamberL s) = ([], None))"
proof (intro conjI impI; elim conjE)
  show "fst (GetMembers w c congressM chamberM s) = ([], None)"
    if "receives_body w c (Endpoint c @ path_members congressM chamberM) bodyM"
      and "Unmarshal_getMembersResponse w bodyM zero_getMembersResponse = (None, envM)"
      and "getMembersResponse.Results envM = []"
    using that by (simp add: GetMembers_decoded [where s = s])
  show "fst (GetChamberMembersByState w c stateS chamberS s) = ([], None)"
    if "receives_body w c (Endpoint c @ path_current_state chamberS stateS) bodyS"
      and "Unmarshal_getMembersByStateResponse w bodyS zero_getMembersByStateResponse
             = (None, envS)"
      and "getMembersByStateResponse.Results envS = []"
    using that by (simp add: GetChamberMembersByState_decoded [where s = s])
  show "fst (GetMembersByState w c stateB s) = ([], None)"
    if "receives_body w c (Endpoint c @ path_current_state ''house'' stateB) bodyBH"
      and "Unmarshal_getMembersByStateResponse w bodyBH zero_getMembersByStateResponse
             = (None, envBH)"
      and "getMembersByStateResponse.Results envBH = []"
      and "receives_body w c (Endpoint c @ path_current_state ''senate'' stateB) bodyBS"
      and "Unmarshal_getMembersByStateResponse w bodyBS zero_getMembersByStateResponse
             = (None, envBS)"
      and "getMembersByStateResponse.Results envBS = []"
    using that by (simp add: GetMembersByState_decoded [where s = s])
  show "fst (GetChamberMembersByDistrict w c stateT district chamberT s) = ([], None)"
    if "receives_body w c (Endpoint c @ path_current_district chamberT stateT district) bodyT"
      and "Unmarshal_getMembersByStateResponse w bodyT zero_getMembersByStateResponse
             = (None, envT)"
      and "getMembersByStateResponse.Results envT = []"
    using that by (simp add: GetChamberMembersByDistrict_decoded [where s = s])
  show "fst (GetNewMembers w c s) = ([], None)"
    if "receives_body w c (Endpoint c @ path_new) bodyN"
      and "Unmarshal_getMembersInTransitionResponse w bodyN
             zero_getMembersInTransitionResponse = (None, envN)"
      and "getMembersInTransitionResponse.Results envN = []"
    using that by (simp add: GetNewMembers_decoded [where s = s])
  show "fst (GetDepartingMembers w c congressL chamberL s) = ([], None)"
    if "receives_body w c (Endpoint c @ path_leaving congressL chamberL) bodyL"
      and "Unmarshal_getMembersInTransitionResponse w bodyL
             zero_getMembersInTransitionResponse = (None, envL)"
      and "getMembersInTransitionResponse.Results envL = []"
    using that by (simp add: GetDepartingMembers_decoded [where s = s])
qed

theorem empty_results_empty_list_witness:
  "fst (GetMembers (world_same_body 200 body_empty) test_client 115 ''senate'' [])
     = ([], None) \<and>
   fst (GetChamberMembersByState (world_same_body 200 body_empty) test_client ''nj'' ''house'' [])
     = ([], None) \<and>
   fst (GetMembersByState (world_same_body 200 body_empty) test_client ''nj'' [])
     = ([], None) \<and>
   fst (GetChamberMembersByDistrict (world_same_body 200 body_empty) test_client ''nj'' 1
          ''house'' [])
     = ([], None) \<and>
   fst (GetNewMembers (world_same_body 200 body_empty) test_client []) = ([], None) \<and>
   fst (GetDepartingMembers (world_same_body 200 body_empty) test_client 115 ''senate'' [])
     = ([], None)"
proof -
  let ?w = "world_same_body 200 body_empty"
  have rM: "receives_body ?w test_client (Endpoint test_client @ path_members 115 ''senate'')
              body_empty"
    by (simp add: receives_body_def api_request_def fixture_defs path_defs fmt_d_numeral)
  have rH: "receives_body ?w test_client
              (Endpoint test_client @ path_current_state ''house'' ''nj'') body_empty"
    by (simp add: receives_body_def api_request_def fixture_defs path_defs)
  have rS: "receives_body ?w test_client
              (Endpoint test_client @ path_current_state ''senate'' ''nj'') body_empty"
    by (simp add: receives_body_def api_request_def fixture_defs path_defs)
  have rT: "receives_body ?w test_client
              (Endpoint test_client @ path_current_district ''house'' ''nj'' 1) body_empty"
    by (simp add: receives_body_def api_request_def fixture_defs path_defs fmt_d_numeral)
  have rN: "receives_body ?w test_client (Endpoint test_client @ path_new) body_empty"
    by (simp add: receives_body_def api_request_def fixture_defs path_defs)
  have rL: "receives_body ?w test_client (Endpoint test_client @ path_leaving 115 ''senate'')
              body_empty"
    by (simp add: receives_body_def api_request_def fixture_defs path_defs fmt_d_numeral)
  have dM: "Unmarshal_getMembersResponse ?w body_empty zero_getMembersResponse
              = (None, zero_getMembersResponse)"
    by (simp add: fixture_defs)
  have dS: "Unmarshal_getMembersByStateResponse ?w body_empty zero_getMembersByStateResponse
              = (None, zero_getMembersByStateResponse)"
    by (simp add: fixture_defs)
  have dN: "Unmarshal_getMembersInTransitionResponse ?w body_empty
              zero_getMembersInTransitionResponse = (None, zero_getMembersInTransitionResponse)"
    by (simp add: fixture_defs)
  have eM: "getMembersResponse.Results zero_getMembersResponse = []"
    by (simp add: zero_getMembersResponse_def)
  have eS: "getMembersByStateResponse.Results zero_getMembersByStateResponse = []"
    by (simp add: zero_getMembersByStateResponse_def)
  have eN: "getMembersInTransitionResponse.Results zero_getMembersInTransitionResponse = []"
    by (simp add: zero_getMembersInTransitionResponse_def)
  from rM rH rS rT rN rL dM dS dN eM eS eN
    empty_results_empty_list
      [where w = ?w and c = test_client and s = "[]"
         and congressM = 115 and chamberM = "''senate''" and bodyM = body_empty
         and envM = zero_getMembersResponse
         and stateS = "''nj''" and chamberS = "''house''" and bodyS = body_empty
         and envS = zero_getMembersByStateResponse
         and stateB = "''nj''" and bodyBH = body_empty and bodyBS = body_empty
         and envBH = zero_getMembersByStateResponse and envBS = zero_getMembersByStateResponse
         and stateT = "''nj''" and district = 1 and chamberT = "''house''" and bodyT = body_empty
         and envT = zero_getMembersByStateResponse
         and bodyN = body_empty and envN = zero_getMembersInTransitionResponse
         and congressL = 115 and chamberL = "''senate''" and bodyL = body_empty
         and envL = zero_getMembersInTransitionResponse]
  show ?thesis by simp
qed

subsection \<open>C6\<close>

text \<open>
  C6. For every response body that \<^verbatim>\<open>json.Unmarshal\<close> rejects (not valid
  JSON, or not of the envelope's shape), every operation fails with the decode error. As
  amended: each of the six single-request operations returns that error and no entities
  (\<^verbatim>\<open>GetMember\<close>: the zero \<^verbatim>\<open>MemberDetails\<close>); the composite
  \<^verbatim>\<open>GetMembersByState\<close> returns the error too, with no entities when the house
  body is the one that does not decode, and with the entities of the house call when the
  house body decodes and the senate body does not.
\<close>

theorem undecodable_body_decode_error:
  "(receives_body w c (Endpoint c @ path_members congressM chamberM) bodyM \<and>
    Unmarshal_getMembersResponse w bodyM zero_getMembersResponse = (Some msgM, envM)
    \<longrightarrow> fst (GetMembers w c congressM chamberM s)
        = ([], Some (UnmarshalError msgM))) \<and>
   (receives_body w c (Endpoint c @ path_member ident) bodyD \<and>
    Unmarshal_getMemberResponse w bodyD zero_getMemberResponse = (Some msgD, envD)
    \<longrightarrow> fst (GetMember w c ident s)
        = (zero_MemberDetails, Some (UnmarshalError msgD))) \<and>
   (receives_body w c (Endpoint c @ path_current_state chamberS stateS) bodyS \<and>
    Unmarshal_getMembersByStateResponse w bodyS zero_getMembersByStateResponse = (Some msgS, envS)
    \<longrightarrow> fst (GetChamberMembersByState w c stateS chamberS s)
        = ([], Some (UnmarshalError msgS))) \<and>
   (receives_body w c (Endpoint c @ path_current_district chamberT stateT district) bodyT \<and>
    Unmarshal_getMembersByStateResponse w bodyT zero_getMembersByStateResponse = (Some msgT, envT)
    \<longrightarrow> fst (GetChamberMembersByDistrict w c stateT district chamberT s)
        = ([], Some (UnmarshalError msgT))) \<and>
   (receives_body w c (Endpoint c @ path_new) bodyN \<and>
    Unmarshal_getMembersInTransitionResponse w bodyN zero_getMembersInTransitionResponse
        = (Some msgN, envN)
    \<longrightarrow> fst (GetNewMembers w c s) = ([], Some (UnmarshalError msgN))) \<and>
   (receives_body w c (Endpoint c @ path_leaving congressL chamberL) bodyL \<and>
    Unmarshal_getMembersInTransitionResponse w bodyL zero_getMembersInTransitionResponse
        = (Some msgL, envL)
    \<longrightarrow> fst (GetDepartingMembers w c congressL chamberL s)
        = ([], Some (UnmarshalError msgL))) \<and>
   (receives_body w c (Endpoint c @ path_current_state ''house'' stateB) bodyBH \<and>
    Unmarshal_getMembersByStateResponse w bodyBH zero_getMembersByStateResponse
        = (Some msgBH, envBH)
    \<longrightarrow> fst (GetMembersByState w c stateB s)
        = ([], Some (UnmarshalError msgBH))) \<and>
   (receives_body w c (Endpoint c @ path_current_state ''house'' stateC) bodyCH \<and>
    Unmarshal_getMembersByStateResponse w bodyCH zero_getMembersByStateResponse
        = (None, envCH) \<and>
    receives_body w c (Endpoint c @ path_current_state ''senate'' stateC) bodyCS \<and>
    Unmarshal_getMembersByStateResponse w bodyCS zero_getMembersByStateResponse
        = (Some msgCS, envCS)
    \<longrightarrow> fst (GetMembersByState w c stateC s)
          = (getMembersByStateResponse.Results envCH, Some (UnmarshalError msgCS))) \<and>
   is_DecodeError (UnmarshalError msg) \<and> \<not> is_TransportError (UnmarshalError msg)"
proof (intro conjI impI; (elim conjE)?)
  show "fst (GetMembers w c congressM chamberM s) = ([], Some (UnmarshalError msgM))"
    if "receives_body w c (Endpoint c @ path_members congressM chamberM) bodyM"
      and "Unmarshal_getMembersResponse w bodyM zero_getMembersResponse = (Some msgM, envM)"
    using that by (simp add: GetMembers_undecodable [where s = s])
  show "fst (GetMember w c ident s) = (zero_MemberDetails, Some (UnmarshalError msgD))"
    if "receives_body w c (Endpoint c @ path_member ident) bodyD"
      and "Unmarshal_getMemberResponse w bodyD zero_getMemberResponse = (Some msgD, envD)"
    using that by (simp add: GetMember_undecodable [where s = s])
  show "fst (GetChamberMembersByState w c stateS chamberS s) = ([], Some (UnmarshalError msgS))"
    if "receives_body w c (Endpoint c @ path_current_state chamberS stateS) bodyS"
      and "Unmarshal_getMembersByStateResponse w bodyS zero_getMembersByStateResponse
          = (Some msgS, envS)"
    using that by (simp add: GetChamberMembersByState_undecodable [where s = s])
  show "fst (GetChamberMembersByDistrict w c stateT district chamberT s)
      = ([], Some (UnmarshalError msgT))"
    if "receives_body w c (Endpoint c @ path_current_district chamberT stateT district) bodyT"
      and "Unmarshal_getMembersByStateResponse w bodyT zero_getMembersByStateResponse
          = (Some msgT, envT)"
    using that by (simp add: GetChamberMembersByDistrict_undecodable [where s = s])
  show "fst (GetNewMembers w c s) = ([], Some (UnmarshalError msgN))"
    if "receives_body w c (Endpoint c @ path_new) bodyN"
      and "Unmarshal_getMembersInTransitionResponse w bodyN zero_getMembersInTransitionResponse
          = (Some msgN, envN)"
    using that by (simp add: GetNewMembers_undecodable [where s = s])
  show "fst (GetDepartingMembers w c congressL chamberL s) = ([], Some (UnmarshalError msgL))"
    if "receives_body w c (Endpoint c @ path_leaving congressL chamberL) bodyL"
      and "Unmarshal_getMembersInTransitionResponse w bodyL zero_getMembersInTransitionResponse
          = (Some msgL, envL)"
    using that by (simp add: GetDepartingMembers_undecodable [where s = s])
  show "fst (GetMembersByState w c stateB s) = ([], Some (UnmarshalError msgBH))"
    if "receives_body w c (Endpoint c @ path_current_state ''house'' stateB) bodyBH"
      and "Unmarshal_getMembersByStateResponse w bodyBH zero_getMembersByStateResponse
          = (Some msgBH, envBH)"
    using that by (simp add: GetMembersByState_house_undecodable [where s = s])
  show "fst (GetMembersByState w c stateC s)
          = (getMembersByStateResponse.Results envCH, Some (UnmarshalError msgCS))"
    if "receives_body w c (Endpoint c @ path_current_state ''house'' stateC) bodyCH"
      and "Unmarshal_getMembersByStateResponse w bodyCH zero_getMembersByStateResponse
          = (None, envCH)"
      and "receives_body w c (Endpoint c @ path_current_state ''senate'' stateC) bodyCS"
      and "Unmarshal_getMembersByStateResponse w bodyCS zero_getMembersByStateResponse
          = (Some msgCS, envCS)"
    using that by (simp add: GetMembersByState_senate_undecodable [where s = s])
  show "is_DecodeError (UnmarshalError msg)" and "\<not> is_TransportError (UnmarshalError msg)"
    by simp_all
qed

text \<open>
  The claim as stated fails for the composite: the house body decodes to one entity, the
  senate body is an HTML error page, and the entity is returned with the decode error.
\<close>

theorem undecodable_senate_body_counterexample:
  "receives_body world_senate_html test_client
     (Endpoint test_client @ path_current_state ''senate'' ''nj'') body_html \<and>
   fst (Unmarshal_getMembersByStateResponse world_senate_html body_html
          zero_getMembersByStateResponse) = Some ''invalid character'' \<and>
   snd (fst (GetMembersByState world_senate_html test_client ''nj'' []))
     = Some (UnmarshalError ''invalid character'') \<and>
   fst (fst (GetMembersByState world_senate_html test_client ''nj'' [])) = [H1] \<and>
   fst (fst (GetMembersByState world_senate_html test_client ''nj'' [])) \<noteq> []"
  by (simp add: GetMembersByState_def GetChamberMembersByState_def op_defs fixture_defs
        path_defs)

theorem undecodable_body_decode_error_witness:
  "fst (GetMembers (world_same_body 502 body_html) test_client 115 ''senate'' [])
      = ([], Some (UnmarshalError ''invalid character'')) \<and>
   fst (GetMember (world_same_body 502 body_html) test_client ''K000388'' [])
       = (zero_MemberDetails, Some (UnmarshalError ''invalid character'')) \<and>
   fst (GetChamberMembersByState (world_same_body 502 body_html) test_client ''nj'' ''senate'' [])
       = ([], Some (UnmarshalError ''invalid character'')) \<and>
   fst (GetChamberMembersByDistrict (world_same_body 502 body_html) test_client ''nj'' 1 ''house'' [])
       = ([], Some (UnmarshalError ''invalid character'')) \<and>
   fst (GetNewMembers (world_same_body 502 body_html) test_client [])
       = ([], Some (UnmarshalError ''invalid character'')) \<and>
   fst (GetDepartingMembers (world_same_body 502 body_html) test_client 115 ''senate'' [])
       = ([], Some (UnmarshalError ''invalid character'')) \<and>
   fst (GetMembersByState (world_same_body 502 body_html) test_client ''nj'' [])
       = ([], Some (UnmarshalError ''invalid character'')) \<and>
   fst (GetMembersByState world_senate_html test_client ''nj'' [])
       = ([H1], Some (UnmarshalError ''invalid character''))"
proof -
  let ?w = "world_same_body 502 body_html"
  let ?envH = "zero_getMembersByStateResponse\<lparr>getMembersByStateResponse.Results := [H1]\<rparr>"
  have rM: "receives_body ?w test_client (Endpoint test_client @ path_members 115 ''senate'')
      body_html"
    by (simp add: receives_body_def api_request_def fixture_defs path_defs fmt_d_numeral)
  have rD: "receives_body ?w test_client (Endpoint test_client @ path_member ''K000388'') body_html"
    by (simp add: receives_body_def api_request_def fixture_defs path_defs)
  have rS: "receives_body ?w test_client (Endpoint test_client @ path_current_state ''senate'' ''nj'')
      body_html"
    by (simp add: receives_body_def api_request_def fixture_defs path_defs)
  have rT: "receives_body ?w test_client (Endpoint test_client @ path_current_district ''house'' ''nj'' 1)
      body_html"
    by (simp add: receives_body_def api_request_def fixture_defs path_defs fmt_d_numeral)
  have rN: "receives_body ?w test_client (Endpoint test_client @ path_new) body_html"
    by (simp add: receives_body_def api_request_def fixture_defs path_defs)
  have rL: "receives_body ?w test_client (Endpoint test_client @ path_leaving 115 ''senate'')
      body_html"
    by (simp add: receives_body_def api_request_def fixture_defs path_defs fmt_d_numeral)
  have rBH: "receives_body ?w test_client (Endpoint test_client @ path_current_state ''house'' ''nj'')
      body_html"
    by (simp add: receives_body_def api_request_def fixture_defs path_defs)
  have dMembersResponse: "Unmarshal_getMembersResponse ?w body_html zero_getMembersResponse
      = (Some ''invalid character'', zero_getMembersResponse)"
    by (simp add: fixture_defs)
  have dMemberResponse: "Unmarshal_getMemberResponse ?w body_html zero_getMemberResponse
      = (Some ''invalid character'', zero_getMemberResponse)"
    by (simp add: fixture_defs)
  have dMembersByStateResponse: "Unmarshal_getMembersByStateResponse ?w body_html zero_getMembersByStateResponse
      = (Some ''invalid character'', zero_getMembersByStateResponse)"
    by (simp add: fixture_defs)
  have dMembersInTransitionResponse: "Unmarshal_getMembersInTransitionResponse ?w body_html zero_getMembersInTransitionResponse
      = (Some ''invalid character'', zero_getMembersInTransitionResponse)"
    by (simp add: fixture_defs)
  have rCH: "receives_body world_senate_html test_client (Endpoint test_client @ path_current_state ''house'' ''nj'') body_house"
    by (simp add: receives_body_def api_request_def fixture_defs path_defs)
  have dCH: "Unmarshal_getMembersByStateResponse world_senate_html body_house
               zero_getMembersByStateResponse = (None, ?envH)"
    by (simp add: fixture_defs)
  have rCS: "receives_body world_senate_html test_client (Endpoint test_client @ path_current_state ''senate'' ''nj'')
      body_html"
    by (simp add: receives_body_def api_request_def fixture_defs path_defs)
  have dCS: "Unmarshal_getMembersByStateResponse world_senate_html body_html
               zero_getMembersByStateResponse
                   = (Some ''invalid character'', zero_getMembersByStateResponse)"
    by (simp add: fixture_defs)
  have first: "fst (GetMembers (world_same_body 502 body_html) test_client 115 ''senate'' [])
      = ([], Some (UnmarshalError ''invalid character'')) \<and>
     fst (GetMember (world_same_body 502 body_html) test_client ''K000388'' [])
         = (zero_MemberDetails, Some (UnmarshalError ''invalid character'')) \<and>
     fst (GetChamberMembersByState (world_same_body 502 body_html) test_client ''nj'' ''senate'' [])
         = ([], Some (UnmarshalError ''invalid character'')) \<and>
     fst (GetChamberMembersByDistrict (world_same_body 502 body_html) test_client ''nj'' 1 ''house'' [])
         = ([], Some (UnmarshalError ''invalid character'')) \<and>
     fst (GetNewMembers (world_same_body 502 body_html) test_client [])
         = ([], Some (UnmarshalError ''invalid character'')) \<and>
     fst (GetDepartingMembers (world_same_body 502 body_html) test_client 115 ''senate'' [])
         = ([], Some (UnmarshalError ''invalid character'')) \<and>
     fst (GetMembersByState (world_same_body 502 body_html) test_client ''nj'' [])
         = ([], Some (UnmarshalError ''invalid character''))"
    using rM rD rS rT rN rL dMembersResponse dMemberResponse dMembersByStateResponse dMembersInTransitionResponse rBH
      undecodable_body_decode_error
        [where w = ?w and c = test_client and s = "[]"
         and congressM = 115
         and chamberM = "''senate''"
         and bodyM = body_html
         and msgM = "''invalid character''"
         and envM = zero_getMembersResponse
         and ident = "''K000388''"
         and bodyD = body_html
         and msgD = "''invalid character''"
         and envD = zero_getMemberResponse
         and stateS = "''nj''"
         and chamberS = "''senate''"
         and bodyS = body_html
         and msgS = "''invalid character''"
         and envS = zero_getMembersByStateResponse
         and stateT = "''nj''"
         and district = 1
         and chamberT = "''house''"
         and bodyT = body_html
         and msgT = "''invalid character''"
         and envT = zero_getMembersByStateResponse
         and bodyN = body_html
         and msgN = "''invalid character''"
         and envN = zero_getMembersInTransitionResponse
         and congressL = 115
         and chamberL = "''senate''"
         and bodyL = body_html
         and msgL = "''invalid character''"
         and envL = zero_getMembersInTransitionResponse
         and stateB = "''nj''"
         and bodyBH = body_html
         and msgBH = "''invalid character''"
         and envBH = zero_getMembersByStateResponse]
    by simp
  have second: "fst (GetMembersByState world_senate_html test_client ''nj'' [])
      = ([H1], Some (UnmarshalError ''invalid character''))"
    using rCH dCH rCS dCS
      undecodable_body_decode_error
        [where w = world_senate_html and c = test_client and s = "[]"
         and stateC = "''nj''"
         and bodyCH = body_house
         and envCH = ?envH
         and bodyCS = body_html
         and msgCS = "''invalid character''"
         and envCS = zero_getMembersByStateResponse]
    by simp
  from first second show ?thesis by simp
qed

subsection \<open>C7\<close>

text \<open>
  C7. For every invocation in which the network call fails, the operation fails with the
  transport error of that call. As amended: for each of the six single-request
  operations no decode step is attempted and no entities are returned, and the same
  holds for the composite \<^verbatim>\<open>GetMembersByState\<close> when its house call is the one
  that fails; when the house call succeeds and the network call of the senate call
  fails, the house body has been decoded (and no other) and the entities of the house
  call are returned alongside the error.
\<close>

theorem network_failure_transport_error:
  "(network_fails w c (Endpoint c @ path_members congressM chamberM) msgM
    \<longrightarrow> fst (GetMembers w c congressM chamberM s) = ([], Some (DoError msgM)) \<and>
        decoded (snd (GetMembers w c congressM chamberM s)) = decoded s) \<and>
   (network_fails w c (Endpoint c @ path_member ident) msgD
    \<longrightarrow> fst (GetMember w c ident s) = (zero_MemberDetails, Some (DoError msgD)) \<and>
        decoded (snd (GetMember w c ident s)) = decoded s) \<and>
   (network_fails w c (Endpoint c @ path_current_state chamberS stateS) msgS
    \<longrightarrow> fst (GetChamberMembersByState w c stateS chamberS s)
        = ([], Some (DoError msgS)) \<and>
        decoded (snd (GetChamberMembersByState w c stateS chamberS s)) = decoded s) \<and>
   (network_fails w c (Endpoint c @ path_current_district chamberT stateT district) msgT
    \<longrightarrow> fst (GetChamberMembersByDistrict w c stateT district chamberT s)
        = ([], Some (DoError msgT)) \<and>
        decoded (snd (GetChamberMembersByDistrict w c stateT district chamberT s)) = decoded s) \<and>
   (network_fails w c (Endpoint c @ path_new) msgN
    \<longrightarrow> fst (GetNewMembers w c s) = ([], Some (DoError msgN)) \<and>
        decoded (snd (GetNewMembers w c s)) = decoded s) \<and>
   (network_fails w c (Endpoint c @ path_leaving congressL chamberL) msgL
    \<longrightarrow> fst (GetDepartingMembers w c congressL chamberL s)
        = ([], Some (DoError msgL)) \<and>
        decoded (snd (GetDepartingMembers w c congressL chamberL s)) = decoded s) \<and>
   (network_fails w c (Endpoint c @ path_current_state ''house'' stateB) msgBH
    \<longrightarrow> fst (GetMembersByState w c stateB s) = ([], Some (DoError msgBH)) \<and>
        decoded (snd (GetMembersByState w c stateB s)) = decoded s) \<and>
   (receives_body w c (Endpoint c @ path_current_state ''house'' stateC) bodyCH \<and>
    Unmarshal_getMembersByStateResponse w bodyCH zero_getMembersByStateResponse
        = (None, envCH) \<and>
    network_fails w c (Endpoint c @ path_current_state ''senate'' stateC) msgCS
    \<longrightarrow> fst (GetMembersByState w c stateC s)
          = (getMembersByStateResponse.Results envCH, Some (DoError msgCS)) \<and>
        decoded (snd (GetMembersByState w c stateC s)) = decoded s @ [bodyCH]) \<and>
   is_TransportError (DoError msg) \<and> \<not> is_DecodeError (DoError msg)"
proof (intro conjI impI; (elim conjE)?)
  show "fst (GetMembers w c congressM chamberM s) = ([], Some (DoError msgM))"
    and "decoded (snd (GetMembers w c congressM chamberM s)) = decoded s"
    if "network_fails w c (Endpoint c @ path_members congressM chamberM) msgM"
    using that by (simp_all add: GetMembers_network_failure [where s = s])
  show "fst (GetMember w c ident s) = (zero_MemberDetails, Some (DoError msgD))"
    and "decoded (snd (GetMember w c ident s)) = decoded s"
    if "network_fails w c (Endpoint c @ path_member ident) msgD"
    using that by (simp_all add: GetMember_network_failure [where s = s])
  show "fst (GetChamberMembersByState w c stateS chamberS s) = ([], Some (DoError msgS))"
    and "decoded (snd (GetChamberMembersByState w c stateS chamberS s)) = decoded s"
    if "network_fails w c (Endpoint c @ path_current_state chamberS stateS) msgS"
    using that by (simp_all add: GetChamberMembersByState_network_failure [where s = s])
  show "fst (GetChamberMembersByDistrict w c stateT district chamberT s)
      = ([], Some (DoError msgT))"
    and "decoded (snd (GetChamberMembersByDistrict w c stateT district chamberT s)) = decoded s"
    if "network_fails w c (Endpoint c @ path_current_district chamberT stateT district) msgT"
    using that by (simp_all add: GetChamberMembersByDistrict_network_failure [where s = s])
  show "fst (GetNewMembers w c s) = ([], Some (DoError msgN))"
    and "decoded (snd (GetNewMembers w c s)) = decoded s"
    if "network_fails w c (Endpoint c @ path_new) msgN"
    using that by (simp_all add: GetNewMembers_network_failure [where s = s])
  show "fst (GetDepartingMembers w c congressL chamberL s) = ([], Some (DoError msgL))"
    and "decoded (snd (GetDepartingMembers w c congressL chamberL s)) = decoded s"
    if "network_fails w c (Endpoint c @ path_leaving congressL chamberL) msgL"
    using that by (simp_all add: GetDepartingMembers_network_failure [where s = s])
  show "fst (GetMembersByState w c stateB s) = ([], Some (DoError msgBH))"
    and "decoded (snd (GetMembersByState w c stateB s)) = decoded s"
    if "network_fails w c (Endpoint c @ path_current_state ''house'' stateB) msgBH"
    using that by (simp_all add: GetMembersByState_house_network_failure [where s = s])
  show "fst (GetMembersByState w c stateC s)
          = (getMembersByStateResponse.Results envCH, Some (DoError msgCS))"
    and "decoded (snd (GetMembersByState w c stateC s)) = decoded s @ [bodyCH]"
    if "receives_body w c (Endpoint c @ path_current_state ''house'' stateC) bodyCH"
      and "Unmarshal_getMembersByStateResponse w bodyCH zero_getMembersByStateResponse
          = (None, envCH)"
      and "network_fails w c (Endpoint c @ path_current_state ''senate'' stateC) msgCS"
    using that by (simp_all add: GetMembersByState_senate_network_failure [where s = s])
  show "is_TransportError (DoError msg)" and "\<not> is_DecodeError (DoError msg)"
    by simp_all
qed

text \<open>
  The claim as stated fails for the composite: the network answers the house request and
  refuses the senate request; the house body was decoded and its entity is returned with
  the transport error.
\<close>

theorem senate_network_failure_counterexample:
  "network_fails world_senate_down test_client
     (Endpoint test_client @ path_current_state ''senate'' ''nj'') ''connection refused'' \<and>
   snd (fst (GetMembersByState world_senate_down test_client ''nj'' []))
     = Some (DoError ''connection refused'') \<and>
   decoded (snd (GetMembersByState world_senate_down test_client ''nj'' [])) = [body_house] \<and>
   decoded (snd (GetMembersByState world_senate_down test_client ''nj'' [])) \<noteq> [] \<and>
   fst (fst (GetMembersByState world_senate_down test_client ''nj'' [])) = [H1] \<and>
   fst (fst (GetMembersByState world_senate_down test_client ''nj'' [])) \<noteq> []"
  by (simp add: GetMembersByState_def GetChamberMembersByState_def op_defs fixture_defs
        path_defs)

theorem network_failure_transport_error_witness:
  "fst (GetMembers world_down test_client 115 ''senate'' [])
      = ([], Some (DoError ''connection refused'')) \<and>
   decoded (snd (GetMembers world_down test_client 115 ''senate'' [])) = [] \<and>
   fst (GetMember world_down test_client ''K000388'' [])
       = (zero_MemberDetails, Some (DoError ''connection refused'')) \<and>
   decoded (snd (GetMember world_down test_client ''K000388'' [])) = [] \<and>
   fst (GetChamberMembersByState world_down test_client ''nj'' ''senate'' [])
       = ([], Some (DoError ''connection refused'')) \<and>
   decoded (snd (GetChamberMembersByState world_down test_client ''nj'' ''senate'' [])) = [] \<and>
   fst (GetChamberMembersByDistrict world_down test_client ''nj'' 1 ''house'' [])
       = ([], Some (DoError ''connection refused'')) \<and>
   decoded (snd (GetChamberMembersByDistrict world_down test_client ''nj'' 1 ''house'' [])) = [] \<and>
   fst (GetNewMembers world_down test_client [])
       = ([], Some (DoError ''connection refused'')) \<and>
   decoded (snd (GetNewMembers world_down test_client [])) = [] \<and>
   fst (GetDepartingMembers world_down test_client 115 ''senate'' [])
       = ([], Some (DoError ''connection refused'')) \<and>
   decoded (snd (GetDepartingMembers world_down test_client 115 ''senate'' [])) = [] \<and>
   fst (GetMembersByState world_down test_client ''nj'' [])
       = ([], Some (DoError ''connection refused'')) \<and>
   fst (GetMembersByState world_senate_down test_client ''nj'' [])
       = ([H1], Some (DoError ''connection refused'')) \<and>
   decoded (snd (GetMembersByState world_down test_client ''nj'' [])) = [] \<and>
   decoded (snd (GetMembersByState world_senate_down test_client ''nj'' [])) = [body_house]"
proof -
  let ?w = "world_down"
  let ?envH = "zero_getMembersByStateResponse\<lparr>getMembersByStateResponse.Results := [H1]\<rparr>"
  have nM: "network_fails ?w test_client (Endpoint test_client @ path_members 115 ''senate'')
      ''connection refused''"
    by (simp add: network_fails_def api_request_def fixture_defs path_defs fmt_d_numeral)
  have nD: "network_fails ?w test_client (Endpoint test_client @ path_member ''K000388'')
      ''connection refused''"
    by (simp add: network_fails_def api_request_def fixture_defs path_defs)
  have nS: "network_fails ?w test_client (Endpoint test_client @ path_current_state ''senate'' ''nj'')
      ''connection refused''"
    by (simp add: network_fails_def api_request_def fixture_defs path_defs)
  have nT: "network_fails ?w test_client (Endpoint test_client @ path_current_district ''house'' ''nj'' 1)
      ''connection refused''"
    by (simp add: network_fails_def api_request_def fixture_defs path_defs fmt_d_numeral)
  have nN: "network_fails ?w test_client (Endpoint test_client @ path_new) ''connection refused''"
    by (simp add: network_fails_def api_request_def fixture_defs path_defs)
  have nL: "network_fails ?w test_client (Endpoint test_client @ path_leaving 115 ''senate'')
      ''connection refused''"
    by (simp add: network_fails_def api_request_def fixture_defs path_defs fmt_d_numeral)
  have nBH: "network_fails ?w test_client (Endpoint test_client @ path_current_state ''house'' ''nj'')
      ''connection refused''"
    by (simp add: network_fails_def api_request_def fixture_defs path_defs)
  have rCH: "receives_body world_senate_down test_client (Endpoint test_client @ path_current_state ''house'' ''nj'') body_house"
    by (simp add: receives_body_def api_request_def fixture_defs path_defs)
  have dCH: "Unmarshal_getMembersByStateResponse world_senate_down body_house
               zero_getMembersByStateResponse = (None, ?envH)"
    by (simp add: fixture_defs)
  have nCS: "network_fails world_senate_down test_client (Endpoint test_client @ path_current_state ''senate'' ''nj'')
      ''connection refused''"
    by (simp add: network_fails_def api_request_def fixture_defs path_defs)
  have first: "fst (GetMembers world_down test_client 115 ''senate'' [])
      = ([], Some (DoError ''connection refused'')) \<and>
     decoded (snd (GetMembers world_down test_client 115 ''senate'' [])) = [] \<and>
     fst (GetMember world_down test_client ''K000388'' [])
         = (zero_MemberDetails, Some (DoError ''connection refused'')) \<and>
     decoded (snd (GetMember world_down test_client ''K000388'' [])) = [] \<and>
     fst (GetChamberMembersByState world_down test_client ''nj'' ''senate'' [])
         = ([], Some (DoError ''connection refused'')) \<and>
     decoded (snd (GetChamberMembersByState world_down test_client ''nj'' ''senate'' [])) = [] \<and>
     fst (GetChamberMembersByDistrict world_down test_client ''nj'' 1 ''house'' [])
         = ([], Some (DoError ''connection refused'')) \<and>
     decoded (snd (GetChamberMembersByDistrict world_down test_client ''nj'' 1 ''house'' [])) = [] \<and>
     fst (GetNewMembers world_down test_client [])
         = ([], Some (DoError ''connection refused'')) \<and>
     decoded (snd (GetNewMembers world_down test_client [])) = [] \<and>
     fst (GetDepartingMembers world_down test_client 115 ''senate'' [])
         = ([], Some (DoError ''connection refused'')) \<and>
     decoded (snd (GetDepartingMembers world_down test_client 115 ''senate'' [])) = [] \<and>
     fst (GetMembersByState world_down test_client ''nj'' [])
         = ([], Some (DoError ''connection refused'')) \<and>
     decoded (snd (GetMembersByState world_down test_client ''nj'' [])) = []"
    using nM nD nS nT nN nL nBH
      network_failure_transport_error
        [where w = ?w and c = test_client and s = "[]"
         and congressM = 115
         and chamberM = "''senate''"
         and msgM = "''connection refused''"
         and ident = "''K000388''"
         and msgD = "''connection refused''"
         and stateS = "''nj''"
         and chamberS = "''senate''"
         and msgS = "''connection refused''"
         and stateT = "''nj''"
         and district = 1
         and chamberT = "''house''"
         and msgT = "''connection refused''"
         and msgN = "''connection refused''"
         and congressL = 115
         and chamberL = "''senate''"
         and msgL = "''connection refused''"
         and stateB = "''nj''"
         and msgBH = "''connection refused''"]
    by simp
  have second: "fst (GetMembersByState world_senate_down test_client ''nj'' [])
      = ([H1], Some (DoError ''connection refused'')) \<and>
     decoded (snd (GetMembersByState world_senate_down test_client ''nj'' [])) = [body_house]"
    using rCH dCH nCS
      network_failure_transport_error
        [where w = world_senate_down and c = test_client and s = "[]"
         and stateC = "''nj''"
         and bodyCH = body_house
         and envCH = ?envH
         and msgCS = "''connection refused''"]
    by simp
  from first second show ?thesis by simp
qed

subsection \<open>C8\<close>

text \<open>
  C8. Every operation constructs its request URL as the client's base endpoint string
  concatenated with the endpoint's rendered path template (for example
  \<^verbatim>\<open>GetMembers\<close> uses \<^verbatim>\<open>/{congress}/{chamber}/members.json\<close> with the
  congress number and the chamber string inserted as they are, unvalidated), and
  attaches the API key as the \<^verbatim>\<open>X-API-Key\<close> header on every request. The
  requests an operation hands to the network are exactly: none if
  \<^verbatim>\<open>http.NewRequest\<close> rejects the URL, else the one GET request for that URL
  with that header; the composite sends the house request and, if the house call
  succeeded, the senate request.
\<close>

theorem request_url_and_key:
  "requests (snd (GetMembers w c congress chamber s)) =
     requests s @
     (if NewRequest_rejects w ''GET''
           (Endpoint c @ ''/'' @ fmt_d congress @ ''/'' @ chamber @ ''/members.json'') = None
      then [\<lparr>Method = ''GET'',
             Request.URL = Endpoint c @ ''/'' @ fmt_d congress @ ''/'' @ chamber @ ''/members.json'',
             Header = [(''X-API-Key'', Key c)]\<rparr>]
      else []) \<and>
   requests (snd (GetMember w c ident s)) =
     requests s @
     (if NewRequest_rejects w ''GET'' (Endpoint c @ ''/members/'' @ ident @ ''.json'') = None
      then [\<lparr>Method = ''GET'', Request.URL = Endpoint c @ ''/members/'' @ ident @ ''.json'',
             Header = [(''X-API-Key'', Key c)]\<rparr>]
      else []) \<and>
   requests (snd (GetChamberMembersByState w c state chamber s)) =
     requests s @
     (if NewRequest_rejects w ''GET''
           (Endpoint c @ ''/members/'' @ chamber @ ''/'' @ state @ ''/current.json'') = None
      then [\<lparr>Method = ''GET'',
             Request.URL = Endpoint c @ ''/members/'' @ chamber @ ''/'' @ state @ ''/current.json'',
             Header = [(''X-API-Key'', Key c)]\<rparr>]
      else []) \<and>
   requests (snd (GetChamberMembersByDistrict w c state district chamber s)) =
     requests s @
     (if NewRequest_rejects w ''GET''
           (Endpoint c @ ''/members/'' @ chamber @ ''/'' @ state @ ''/'' @ fmt_d district
              @ ''/current.json'') = None
      then [\<lparr>Method = ''GET'',
             Request.URL = Endpoint c @ ''/members/'' @ chamber @ ''/'' @ state @ ''/''
                             @ fmt_d district @ ''/current.json'',
             Header = [(''X-API-Key'', Key c)]\<rparr>]
      else []) \<and>
   requests (snd (GetNewMembers w c s)) =
     requests s @
     (if NewRequest_rejects w ''GET'' (Endpoint c @ ''/members/new.json'') = None
      then [\<lparr>Method = ''GET'', Request.URL = Endpoint c @ ''/members/new.json'',
             Header = [(''X-API-Key'', Key c)]\<rparr>]
      else []) \<and>
   requests (snd (GetDepartingMembers w c congress chamber s)) =
     requests s @
     (if NewRequest_rejects w ''GET''
           (Endpoint c @ ''/'' @ fmt_d congress @ ''/'' @ chamber @ ''/members/leaving.json'')
         = None
      then [\<lparr>Method = ''GET'',
             Request.URL = Endpoint c @ ''/'' @ fmt_d congress @ ''/'' @ chamber
                             @ ''/members/leaving.json'',
             Header = [(''X-API-Key'', Key c)]\<rparr>]
      else []) \<and>
   requests (snd (GetMembersByState w c state s)) =
     requests s @
     (if NewRequest_rejects w ''GET'' (Endpoint c @ ''/members/house/'' @ state @ ''/current.json'')
         = None
      then [\<lparr>Method = ''GET'',
             Request.URL = Endpoint c @ ''/members/house/'' @ state @ ''/current.json'',
             Header = [(''X-API-Key'', Key c)]\<rparr>]
      else []) @
     (if snd (fst (GetChamberMembersByState w c state ''house'' s)) = None \<and>
         NewRequest_rejects w ''GET'' (Endpoint c @ ''/members/senate/'' @ state @ ''/current.json'')
           = None
      then [\<lparr>Method = ''GET'',
             Request.URL = Endpoint c @ ''/members/senate/'' @ state @ ''/current.json'',
             Header = [(''X-API-Key'', Key c)]\<rparr>]
      else [])"
proof (intro conjI)
  show "requests (snd (GetMembers w c congress chamber s)) =
     requests s @
     (if NewRequest_rejects w ''GET''
           (Endpoint c @ ''/'' @ fmt_d congress @ ''/'' @ chamber @ ''/members.json'') = None
      then [\<lparr>Method = ''GET'',
             Request.URL = Endpoint c @ ''/'' @ fmt_d congress @ ''/'' @ chamber @ ''/members.json'',
             Header = [(''X-API-Key'', Key c)]\<rparr>]
      else [])"
    using GetMembers_requests [of w c congress chamber s]
    by (simp add: path_defs api_request_def)
  show "requests (snd (GetMember w c ident s)) =
     requests s @
     (if NewRequest_rejects w ''GET'' (Endpoint c @ ''/members/'' @ ident @ ''.json'') = None
      then [\<lparr>Method = ''GET'', Request.URL = Endpoint c @ ''/members/'' @ ident @ ''.json'',
             Header = [(''X-API-Key'', Key c)]\<rparr>]
      else [])"
    using GetMember_requests [of w c ident s]
    by (simp add: path_defs api_request_def)
  show "requests (snd (GetChamberMembersByState w c state chamber s)) =
     requests s @
     (if NewRequest_rejects w ''GET''
           (Endpoint c @ ''/members/'' @ chamber @ ''/'' @ state @ ''/current.json'') = None
      then [\<lparr>Method = ''GET'',
             Request.URL = Endpoint c @ ''/members/'' @ chamber @ ''/'' @ state @ ''/current.json'',
             Header = [(''X-API-Key'', Key c)]\<rparr>]
      else [])"
    using GetChamberMembersByState_requests [of w c state chamber s]
    by (simp add: path_defs api_request_def)
  show "requests (snd (GetChamberMembersByDistrict w c state district chamber s)) =
     requests s @
     (if NewRequest_rejects w ''GET''
           (Endpoint c @ ''/members/'' @ chamber @ ''/'' @ state @ ''/'' @ fmt_d district
              @ ''/current.json'') = None
      then [\<lparr>Method = ''GET'',
             Request.URL = Endpoint c @ ''/members/'' @ chamber @ ''/'' @ state @ ''/''
                             @ fmt_d district @ ''/current.json'',
             Header = [(''X-API-Key'', Key c)]\<rparr>]
      else [])"
    using GetChamberMembersByDistrict_requests [of w c state district chamber s]
    by (simp add: path_defs api_request_def)
  show "requests (snd (GetNewMembers w c s)) =
     requests s @
     (if NewRequest_rejects w ''GET'' (Endpoint c @ ''/members/new.json'') = None
      then [\<lparr>Method = ''GET'', Request.URL = Endpoint c @ ''/members/new.json'',
             Header = [(''X-API-Key'', Key c)]\<rparr>]
      else [])"
    using GetNewMembers_requests [of w c s]
    by (simp add: path_defs api_request_def)
  show "requests (snd (GetDepartingMembers w c congress chamber s)) =
     requests s @
     (if NewRequest_rejects w ''GET''
           (Endpoint c @ ''/'' @ fmt_d congress @ ''/'' @ chamber @ ''/members/leaving.json'')
         = None
      then [\<lparr>Method = ''GET'',
             Request.URL = Endpoint c @ ''/'' @ fmt_d congress @ ''/'' @ chamber
                             @ ''/members/leaving.json'',
             Header = [(''X-API-Key'', Key c)]\<rparr>]
      else [])"
    using GetDepartingMembers_requests [of w c congress chamber s]
    by (simp add: path_defs api_request_def)
  show "requests (snd (GetMembersByState w c state s)) =
     requests s @
     (if NewRequest_rejects w ''GET'' (Endpoint c @ ''/members/house/'' @ state @ ''/current.json'')
         = None
      then [\<lparr>Method = ''GET'',
             Request.URL = Endpoint c @ ''/members/house/'' @ state @ ''/current.json'',
             Header = [(''X-API-Key'', Key c)]\<rparr>]
      else []) @
     (if snd (fst (GetChamberMembersByState w c state ''house'' s)) = None \<and>
         NewRequest_rejects w ''GET'' (Endpoint c @ ''/members/senate/'' @ state @ ''/current.json'')
           = None
      then [\<lparr>Method = ''GET'',
             Request.URL = Endpoint c @ ''/members/senate/'' @ state @ ''/current.json'',
             Header = [(''X-API-Key'', Key c)]\<rparr>]
      else [])"
    using GetMembersByState_requests [of w c state s]
    by (simp add: path_defs api_request_def)
qed

theorem request_url_and_key_witness:
  "requests (snd (GetMembers world_up test_client 115 ''senate'' []))
     = [\<lparr>Method = ''GET'', Request.URL = ''https://api.example/v1/115/senate/members.json'',
         Header = [(''X-API-Key'', ''KEYgoesHERE123'')]\<rparr>] \<and>
   requests (snd (GetMembers world_up test_client (- 7) ''no such chamber'' [])) = [] \<and>
   requests (snd (GetMembers world_up test_client (- 7) ''lords'' []))
     = [\<lparr>Method = ''GET'', Request.URL = ''https://api.example/v1/-7/lords/members.json'',
         Header = [(''X-API-Key'', ''KEYgoesHERE123'')]\<rparr>] \<and>
   requests (snd (GetMembersByState world_up test_client ''nj'' []))
     = [\<lparr>Method = ''GET'',
         Request.URL = ''https://api.example/v1/members/house/nj/current.json'',
         Header = [(''X-API-Key'', ''KEYgoesHERE123'')]\<rparr>,
        \<lparr>Method = ''GET'',
         Request.URL = ''https://api.example/v1/members/senate/nj/current.json'',
         Header = [(''X-API-Key'', ''KEYgoesHERE123'')]\<rparr>]"
proof -
  have house: "snd (fst (GetChamberMembersByState world_up test_client ''nj'' ''house'' []))
                 = None"
    by (simp add: GetChamberMembersByState_def op_defs fixture_defs)
  from house
    request_url_and_key
      [where w = world_up and c = test_client and congress = 115 and chamber = "''senate''"
         and s = "[]"]
    request_url_and_key
      [where w = world_up and c = test_client and congress = "- 7"
         and chamber = "''no such chamber''" and s = "[]"]
    request_url_and_key
      [where w = world_up and c = test_client and congress = "- 7" and chamber = "''lords''"
         and s = "[]"]
    request_url_and_key
      [where w = world_up and c = test_client and state = "''nj''" and s = "[]"]
  show ?thesis
    by (simp add: fixture_defs fmt_d_numeral)
qed

subsection \<open>C9\<close>

text \<open>
  C9. The HTTP status code of the response is never inspected: for any two runs of the
  same operation that receive the same response body, the returned entities and error
  are identical regardless of the two responses' status codes. Two worlds that differ
  at most in the status codes of their responses give every operation the same result.
\<close>

theorem status_code_never_inspected:
  assumes "erase_status w1 = erase_status w2"
  shows "GetMembers w1 c congress chamber s = GetMembers w2 c congress chamber s \<and>
         GetMember w1 c ident s = GetMember w2 c ident s \<and>
         GetChamberMembersByState w1 c state chamber s
           = GetChamberMembersByState w2 c state chamber s \<and>
         GetMembersByState w1 c state s = GetMembersByState w2 c state s \<and>
         GetChamberMembersByDistrict w1 c state district chamber s
           = GetChamberMembersByDistrict w2 c state district chamber s \<and>
         GetNewMembers w1 c s = GetNewMembers w2 c s \<and>
         GetDepartingMembers w1 c congress chamber s = GetDepartingMembers w2 c congress chamber s"
proof -
  have "GetMembers w1 c congress chamber s = GetMembers (erase_status w1) c congress chamber s"
    and "GetMembers w2 c congress chamber s = GetMembers (erase_status w2) c congress chamber s"
    and "GetMember w1 c ident s = GetMember (erase_status w1) c ident s"
    and "GetMember w2 c ident s = GetMember (erase_status w2) c ident s"
    and "GetChamberMembersByState w1 c state chamber s
           = GetChamberMembersByState (erase_status w1) c state chamber s"
    and "GetChamberMembersByState w2 c state chamber s
           = GetChamberMembersByState (erase_status w2) c state chamber s"
    and "GetMembersByState w1 c state s = GetMembersByState (erase_status w1) c state s"
    and "GetMembersByState w2 c state s = GetMembersByState (erase_status w2) c state s"
    and "GetChamberMembersByDistrict w1 c state district chamber s
           = GetChamberMembersByDistrict (erase_status w1) c state district chamber s"
    and "GetChamberMembersByDistrict w2 c state district chamber s
           = GetChamberMembersByDistrict (erase_status w2) c state district chamber s"
    and "GetNewMembers w1 c s = GetNewMembers (erase_status w1) c s"
    and "GetNewMembers w2 c s = GetNewMembers (erase_status w2) c s"
    and "GetDepartingMembers w1 c congress chamber s
           = GetDepartingMembers (erase_status w1) c congress chamber s"
    and "GetDepartingMembers w2 c congress chamber s
           = GetDepartingMembers (erase_status w2) c congress chamber s"
    by (simp_all only: GetMembers_erase_status GetMember_erase_status
          GetChamberMembersByState_erase_status GetMembersByState_erase_status
          GetChamberMembersByDistrict_erase_status GetNewMembers_erase_status
          GetDepartingMembers_erase_status)
  with assms show ?thesis by simp
qed

theorem status_code_never_inspected_witness:
  "StatusCode (projr (RoundTrip (world_members 200)
                 (api_request test_client ''https://api.example/v1/115/senate/members.json'')))
     = 200 \<and>
   StatusCode (projr (RoundTrip (world_members 500)
                 (api_request test_client ''https://api.example/v1/115/senate/members.json'')))
     = 500 \<and>
   GetMembers (world_members 200) test_client 115 ''senate'' []
     = GetMembers (world_members 500) test_client 115 ''senate'' [] \<and>
   fst (GetMembers (world_members 500) test_client 115 ''senate'' []) = ([K000388], None)"
proof -
  have same: "erase_status (world_members 200) = erase_status (world_members 500)"
    by (simp add: erase_status_def world_members_def test_world_def scripted_network_def
          fun_eq_iff)
  have run: "fst (GetMembers (world_members 500) test_client 115 ''senate'' [])
               = ([K000388], None)"
    by (simp add: GetMembers_def op_defs fixture_defs fmt_d_numeral)
  from status_code_never_inspected [OF same, of test_client 115 "''senate''" "[]"] run
  show ?thesis
    by (simp add: world_members_def test_world_def scripted_network_def api_request_def)
qed

subsection \<open>C10\<close>

text \<open>
  C10. For every well-formed envelope whose results list is empty,
  \<^verbatim>\<open>GetMember\<close> returns the zero value of \<^verbatim>\<open>MemberDetails\<close> (every field
  empty or zero) together with a nil error, so a caller cannot distinguish "member not
  found" from a member whose fields are all empty: an envelope whose only result is a
  member with every field empty gives the same pair.
\<close>

theorem GetMember_empty_results_zero_value:
  assumes "receives_body w c (Endpoint c @ path_member ident) body"
    and "Unmarshal_getMemberResponse w body zero_getMemberResponse = (None, env)"
    and "getMemberResponse.Results env = []"
    and "receives_body w' c (Endpoint c @ path_member ident) body'"
    and "Unmarshal_getMemberResponse w' body' zero_getMemberResponse = (None, env')"
    and "getMemberResponse.Results env' = [zero_MemberDetails]"
  shows "fst (GetMember w c ident s) = (zero_MemberDetails, None) \<and>
         fst (GetMember w' c ident s') = fst (GetMember w c ident s)"
  using assms
  by (simp add: GetMember_decoded [where s = s] GetMember_decoded [where s = s'])

theorem GetMember_empty_results_zero_value_witness:
  "fst (GetMember (world_same_body 200 body_empty) test_client ''K000388'' [])
     = (zero_MemberDetails, None) \<and>
   fst (GetMember world_up test_client ''K000388'' [])
     = fst (GetMember (world_same_body 200 body_empty) test_client ''K000388'' []) \<and>
   MemberDetails.ID zero_MemberDetails = '''' \<and>
   Member.FirstName (MemberDetails.Member zero_MemberDetails) = '''' \<and>
   Roles zero_MemberDetails = [] \<and>
   \<not> MemberDetails.InOffice zero_MemberDetails"
proof -
  let ?env' = "zero_getMemberResponse\<lparr>getMemberResponse.Results := [zero_MemberDetails]\<rparr>"
  have r1: "receives_body (world_same_body 200 body_empty) test_client
              (Endpoint test_client @ path_member ''K000388'') body_empty"
    by (simp add: receives_body_def api_request_def fixture_defs path_defs)
  have d1: "Unmarshal_getMemberResponse (world_same_body 200 body_empty) body_empty
              zero_getMemberResponse = (None, zero_getMemberResponse)"
    by (simp add: fixture_defs)
  have e1: "getMemberResponse.Results zero_getMemberResponse = []"
    by (simp add: zero_getMemberResponse_def)
  have r2: "receives_body world_up test_client
              (Endpoint test_client @ path_member ''K000388'') body_blank_member"
    by (simp add: receives_body_def api_request_def fixture_defs path_defs)
  have d2: "Unmarshal_getMemberResponse world_up body_blank_member zero_getMemberResponse
              = (None, ?env')"
    by (simp add: fixture_defs)
  have e2: "getMemberResponse.Results ?env' = [zero_MemberDetails]"
    by simp
  from GetMember_empty_results_zero_value [OF r1 d1 e1 r2 d2 e2, of "[]" "[]"]
  show ?thesis by (simp add: zero_MemberDetails_def zero_Member_def)
qed

end
